theory Spec2Isabelle
  imports Main "HOL-Library.Sublist"
begin

section \<open>Python string primitives used by the snippet editor\<close>

text \<open>
  Text is modelled as \<open>string\<close>, one \<open>char\<close> per character of the Python \<open>str\<close>.
  \<open>py_count\<close> is \<open>str.count\<close>: the number of non-overlapping occurrences found
  scanning from the left, and \<open>len + 1\<close> for the empty pattern.
  \<open>py_replace1\<close> is \<open>str.replace(old, new, 1)\<close>: the leftmost occurrence is replaced.
  \<open>py_find\<close> is \<open>str.find\<close> with \<open>None\<close> for \<open>-1\<close>, and \<open>py_in\<close> is the
  substring test \<open>sub in s\<close>.
\<close>

fun count_nonempty :: "string \<Rightarrow> string \<Rightarrow> nat" where
  "count_nonempty sub [] = 0"
| "count_nonempty sub (c # cs) =
     (if sub \<noteq> [] \<and> prefix sub (c # cs)
      then Suc (count_nonempty sub (drop (length sub) (c # cs)))
      else count_nonempty sub cs)"

definition py_count :: "string \<Rightarrow> string \<Rightarrow> nat" where
  "py_count s sub = (if sub = [] then length s + 1 else count_nonempty sub s)"

fun py_replace1 :: "string \<Rightarrow> string \<Rightarrow> string \<Rightarrow> string" where
  "py_replace1 [] old new = (if old = [] then new else [])"
| "py_replace1 (c # cs) old new =
     (if prefix old (c # cs) then new @ drop (length old) (c # cs)
      else c # py_replace1 cs old new)"

fun py_find :: "string \<Rightarrow> string \<Rightarrow> nat option" where
  "py_find [] sub = (if sub = [] then Some 0 else None)"
| "py_find (c # cs) sub =
     (if prefix sub (c # cs) then Some 0 else map_option Suc (py_find cs sub))"

definition py_in :: "string \<Rightarrow> string \<Rightarrow> bool" where
  "py_in sub s = (py_find s sub \<noteq> None)"

section \<open>Conversation entries\<close>

datatype role = System | User | Assistant | Tool

text \<open>
  A tool call is the dict \<open>{"id", "type": "function", "function": {"name", "arguments"}}\<close>;
  the constant \<open>type\<close> field is left out.
\<close>

record tool_call =
  call_id :: string
  fn_name :: string
  fn_arguments :: string

text \<open>
  A conversation entry. \<open>tool_calls = []\<close> stands for an absent (or empty) \<open>tool_calls\<close>
  key: the source only ever tests it for truthiness. \<open>tool_call_id\<close> and \<open>name\<close> are
  present on tool-role entries only.
\<close>

record message =
  role :: role
  content :: string
  tool_calls :: "tool_call list"
  tool_call_id :: "string option"
  name :: "string option"

section \<open>The world the operations act on\<close>

record git_context =
  enabled :: bool
  skip_staging :: bool
  branch :: "string option"

text \<open>
  The result of \<open>subprocess.run\<close>: the process ran and exited with a return code, standard
  output and standard error, or the executable was not found (\<open>FileNotFoundError\<close>).
\<close>

datatype proc_result = Exited int string string | NotInstalled

text \<open>
  The mutable state of a session: file contents keyed by path, the log of whole-file
  writes (oldest first), the global \<open>git_context\<close>, the log of subprocess invocations
  (oldest first) and the global \<open>conversation_history\<close>.
\<close>

record world =
  files :: "string \<rightharpoonup> string"
  writes :: "(string \<times> string) list"
  git :: git_context
  procs :: "string list list"
  history :: "message list"

text \<open>
  What the code obtains from outside the program is a parameter: path resolution
  (\<open>Path.resolve\<close> against the base directory), the working directory, the path
  relative to it (\<open>None\<close> when \<open>relative_to\<close> raises \<open>ValueError\<close>), the outcome of
  a subprocess in the current world, whether \<open>.git\<close> exists, the user's reply to a
  prompt, the lines the user enters when asked for custom ignore patterns (up to the
  first empty one), and \<open>json.loads\<close> (\<open>None\<close> for \<open>JSONDecodeError\<close>).
\<close>

datatype json =
  JNull | JBool bool | JNum int | JStr string | JArr "json list" | JObj "(string \<times> json) list"

record env =
  resolve :: "string \<Rightarrow> string"
  cwd :: string
  relative_to_cwd :: "string \<Rightarrow> string option"
  run :: "world \<Rightarrow> string list \<Rightarrow> proc_result"
  git_dir_exists :: "world \<Rightarrow> bool"
  prompt_reply :: "world \<Rightarrow> string \<Rightarrow> string"
  custom_patterns :: "world \<Rightarrow> string list"
  json_loads :: "string \<Rightarrow> json option"

datatype value_error =
  Original_snippet_not_found
  | Ambiguous_edit nat
  | Home_directory_references_not_allowed
  | File_content_exceeds_size_limit

datatype py_exn =
  ValueError value_error
  | FileNotFoundError
  | CalledProcessError
  | JSONDecodeError
  | KeyError string
  | TypeError
  | AttributeError

definition MAX_FILE_CONTENT_SIZE_CREATE :: nat where
  "MAX_FILE_CONTENT_SIZE_CREATE = 5000000"

definition subprocess_run :: "env \<Rightarrow> string list \<Rightarrow> world \<Rightarrow> proc_result \<times> world" where
  "subprocess_run e cmd w = (run e w cmd, w\<lparr>procs := procs w @ [cmd]\<rparr>)"

definition normalize_path :: "env \<Rightarrow> string \<Rightarrow> string" where
  "normalize_path e path_str = resolve e path_str"

definition read_local_file :: "env \<Rightarrow> string \<Rightarrow> world \<Rightarrow> py_exn + string" where
  "read_local_file e file_path w =
     (case files w (resolve e file_path) of
        None \<Rightarrow> Inl FileNotFoundError
      | Some text \<Rightarrow> Inr text)"

text \<open>
  \<open>stage_file\<close>: returns whether \<open>git add\<close> succeeded. Every exception is caught inside,
  also the missing executable, which here leaves \<open>git_context\<close> as it is.
\<close>

definition stage_file :: "env \<Rightarrow> string \<Rightarrow> world \<Rightarrow> bool \<times> world" where
  "stage_file e file_path_str w =
     (if \<not> enabled (git w) \<or> skip_staging (git w) then (False, w)
      else case relative_to_cwd e (resolve e file_path_str) of
             None \<Rightarrow> (False, w)
           | Some rel_path \<Rightarrow>
               (case subprocess_run e [''git'', ''add'', rel_path] w of
                  (Exited returncode out err, w') \<Rightarrow> (returncode = 0, w')
                | (NotInstalled, w') \<Rightarrow> (False, w')))"

text \<open>The components of a path, split at \<open>/\<close> (empty components included).\<close>

fun path_parts :: "string \<Rightarrow> string list" where
  "path_parts [] = [[]]"
| "path_parts (c # cs) =
     (if c = CHR ''/'' then [] # path_parts cs
      else (case path_parts cs of [] \<Rightarrow> [[c]] | p # ps \<Rightarrow> (c # p) # ps))"

definition startswith_tilde :: "string \<Rightarrow> bool" where
  "startswith_tilde part = (case part of [] \<Rightarrow> False | c # cs \<Rightarrow> c = CHR ''~'')"

definition create_file :: "env \<Rightarrow> string \<Rightarrow> string \<Rightarrow> world \<Rightarrow> (py_exn + unit) \<times> world" where
  "create_file e path text w =
     (if list_ex startswith_tilde (path_parts path)
      then (Inl (ValueError Home_directory_references_not_allowed), w)
      else let normalized_path_str = normalize_path e path in
        if length text > MAX_FILE_CONTENT_SIZE_CREATE
        then (Inl (ValueError File_content_exceeds_size_limit), w)
        else let w1 = w\<lparr>files := (files w)(normalized_path_str \<mapsto> text),
                         writes := writes w @ [(normalized_path_str, text)]\<rparr> in
          if enabled (git w1) \<and> \<not> skip_staging (git w1)
          then (Inr (), snd (stage_file e normalized_path_str w1))
          else (Inr (), w1))"

text \<open>
  \<open>apply_diff_edit\<close> returns nothing and reports on the console; the model returns which
  report was made: the edit was applied, the file was not found, or a \<open>ValueError\<close> was
  caught and shown with "No changes".
\<close>

datatype edit_report = Applied | File_not_found | No_changes value_error

definition apply_diff_edit ::
  "env \<Rightarrow> string \<Rightarrow> string \<Rightarrow> string \<Rightarrow> world \<Rightarrow> (py_exn + edit_report) \<times> world" where
  "apply_diff_edit e path original_snippet new_snippet w =
     (let normalized_path_str = normalize_path e path in
      case read_local_file e normalized_path_str w of
        Inl FileNotFoundError \<Rightarrow> (Inr File_not_found, w)
      | Inl (ValueError v) \<Rightarrow> (Inr (No_changes v), w)
      | Inl x \<Rightarrow> (Inl x, w)
      | Inr text \<Rightarrow>
          let occurrences = py_count text original_snippet in
          if occurrences = 0 then (Inr (No_changes Original_snippet_not_found), w)
          else if occurrences > 1 then (Inr (No_changes (Ambiguous_edit occurrences)), w)
          else let updated_content = py_replace1 text original_snippet new_snippet in
            (case create_file e normalized_path_str updated_content w of
               (Inl FileNotFoundError, w') \<Rightarrow> (Inr File_not_found, w')
             | (Inl (ValueError v), w') \<Rightarrow> (Inr (No_changes v), w')
             | (Inl x, w') \<Rightarrow> (Inl x, w')
             | (Inr u, w') \<Rightarrow> (Inr Applied, w')))"

section \<open>Conversation history truncation\<close>

text \<open>The test \<open>"User added file" in msg["content"]\<close>.\<close>

definition mentions_added_file :: "message \<Rightarrow> bool" where
  "mentions_added_file msg = py_in ''User added file'' (content msg)"

text \<open>
  The first system message and the last three file contexts among the later ones; a list
  of at most one system message is kept as it is.
\<close>

definition important_system :: "message list \<Rightarrow> message list" where
  "important_system system_messages =
     (if length system_messages > 1
      then let file_contexts = filter mentions_added_file (tl system_messages)
           in hd system_messages # drop (length file_contexts - 3) file_contexts
      else system_messages)"

text \<open>
  The loops walk \<open>other_messages\<close> backwards with an index \<open>i\<close>; the model carries
  \<open>n = i + 1\<close>, the number of entries not yet looked at, so that \<open>i \<ge> 0\<close> is \<open>0 < n\<close>
  and \<open>other_messages[i]\<close> is \<open>other_messages ! (n - 1)\<close>.
  \<open>skip_tool_results\<close> is the inner loop that collects a run of tool results: it returns
  the \<open>n\<close> at which the run stops, the run being \<open>drop n1 (take n other_messages)\<close>.
\<close>

fun skip_tool_results :: "message list \<Rightarrow> nat \<Rightarrow> nat" where
  "skip_tool_results other_messages 0 = 0"
| "skip_tool_results other_messages (Suc i) =
     (if role (other_messages ! i) = Tool then skip_tool_results other_messages i else Suc i)"

function keep_loop :: "message list \<Rightarrow> nat \<Rightarrow> message list \<Rightarrow> int \<Rightarrow> message list" where
  "keep_loop other_messages n keep_messages messages_to_keep =
     (if 0 < n \<and> int (length keep_messages) < messages_to_keep
      then let current_msg = other_messages ! (n - 1) in
        if role current_msg = Tool
        then let n1 = skip_tool_results other_messages n;
                 keep1 = drop n1 (take n other_messages) @ keep_messages
             in if 0 < n1 \<and> role (other_messages ! (n1 - 1)) = Assistant
                     \<and> tool_calls (other_messages ! (n1 - 1)) \<noteq> []
                then keep_loop other_messages (n1 - 1)
                       (other_messages ! (n1 - 1) # keep1) messages_to_keep
                else keep_loop other_messages n1 keep1 messages_to_keep
        else keep_loop other_messages (n - 1) (current_msg # keep_messages) messages_to_keep
      else keep_messages)"
  by pat_completeness auto
termination
proof -
  have le: "skip_tool_results ms k \<le> k" for ms k
    by (induction k) auto
  have less: "skip_tool_results ms k < k" if "0 < k" "role (ms ! (k - 1)) = Tool" for ms k
    using that le[of ms "k - 1"] by (cases k) auto
  show ?thesis
  proof (relation "measure (\<lambda>(ms, n, k, m). n)", goal_cases)
    case 1
    then show ?case by simp
  next
    case (2 ms n k m cur n1 keep1)
    then show ?case using less[of n ms] by simp
  next
    case (3 ms n k m cur n1 keep1)
    then show ?case using less[of n ms] by simp
  next
    case (4 ms n k m cur)
    then show ?case by simp
  qed
qed

definition smart_truncate_history :: "message list \<Rightarrow> int \<Rightarrow> message list" where
  "smart_truncate_history conversation_history max_messages =
     (if int (length conversation_history) \<le> max_messages then conversation_history
      else
        let system_messages =
              important_system (filter (\<lambda>msg. role msg = System) conversation_history);
            other_messages = filter (\<lambda>msg. role msg \<noteq> System) conversation_history;
            messages_to_keep = max_messages - int (length system_messages);
            keep_messages = keep_loop other_messages (length other_messages) [] messages_to_keep;
            result = system_messages @ keep_messages
        in if int (length result) > max_messages
           then let excess = int (length result) - max_messages
                in system_messages @ drop (nat excess) keep_messages
           else result)"

text \<open>
  The causality invariant of the conversation history: every tool-role entry carries a
  \<open>tool_call_id\<close> that is the id of a call of the nearest preceding assistant entry with
  tool calls. \<open>linked_from calls\<close> walks the history with the calls of that entry
  (none at the start).
\<close>

fun linked_from :: "tool_call list \<Rightarrow> message list \<Rightarrow> bool" where
  "linked_from calls [] = True"
| "linked_from calls (msg # rest) =
     (if role msg = Assistant \<and> tool_calls msg \<noteq> [] then linked_from (tool_calls msg) rest
      else if role msg = Tool
      then tool_call_id msg \<in> set (map (\<lambda>c. Some (call_id c)) calls) \<and> linked_from calls rest
      else linked_from calls rest)"

definition tool_results_linked :: "message list \<Rightarrow> bool" where
  "tool_results_linked conversation_history = linked_from [] conversation_history"

section \<open>Accumulation of streamed tool-call fragments\<close>

text \<open>
  A streamed fragment (\<open>ChoiceDeltaToolCall\<close>): the index of the call it belongs to, and
  optionally an id and a function part with optionally a name and a piece of the
  arguments text. The stream is the sequence of the fragments of all chunks, in arrival
  order.
\<close>

record function_delta =
  delta_name :: "string option"
  delta_arguments :: "string option"

record tool_call_chunk =
  index :: nat
  chunk_id :: "string option"
  chunk_function :: "function_delta option"

text \<open>Python truthiness of an optional string: present and not empty.\<close>

definition truthy :: "string option \<Rightarrow> bool" where
  "truthy s = (case s of None \<Rightarrow> False | Some text \<Rightarrow> text \<noteq> [])"

definition placeholder :: tool_call where
  "placeholder = \<lparr>call_id = [], fn_name = [], fn_arguments = []\<rparr>"

text \<open>The update of \<open>current_tool_dict\<close> by one fragment.\<close>

definition merge_chunk :: "tool_call \<Rightarrow> tool_call_chunk \<Rightarrow> tool_call" where
  "merge_chunk current_tool_dict tool_call_chunk =
     (let d1 = (if truthy (chunk_id tool_call_chunk)
                then current_tool_dict\<lparr>call_id := the (chunk_id tool_call_chunk)\<rparr>
                else current_tool_dict)
      in case chunk_function tool_call_chunk of
           None \<Rightarrow> d1
         | Some f \<Rightarrow>
             (let d2 = (if truthy (delta_name f) then d1\<lparr>fn_name := the (delta_name f)\<rparr> else d1)
              in if truthy (delta_arguments f)
                 then d2\<lparr>fn_arguments := fn_arguments d2 @ the (delta_arguments f)\<rparr>
                 else d2))"

text \<open>
  One pass of the loop body: the list is padded with placeholders up to the fragment's
  index, then the entry at that index is updated.
\<close>

definition accumulate_chunk :: "tool_call list \<Rightarrow> tool_call_chunk \<Rightarrow> tool_call list" where
  "accumulate_chunk accumulated_tool_calls tool_call_chunk =
     (let idx = index tool_call_chunk;
          padded = accumulated_tool_calls
                     @ replicate (Suc idx - length accumulated_tool_calls) placeholder
      in padded[idx := merge_chunk (padded ! idx) tool_call_chunk])"

definition accumulate_tool_calls :: "tool_call_chunk list \<Rightarrow> tool_call list" where
  "accumulate_tool_calls chunks = foldl accumulate_chunk [] chunks"

text \<open>
  What a fragment carries, the empty text standing for an absent or empty part.
\<close>

definition id_part :: "tool_call_chunk \<Rightarrow> string" where
  "id_part c = (case chunk_id c of None \<Rightarrow> [] | Some text \<Rightarrow> text)"

definition name_part :: "tool_call_chunk \<Rightarrow> string" where
  "name_part c =
     (case chunk_function c of None \<Rightarrow> []
      | Some f \<Rightarrow> (case delta_name f of None \<Rightarrow> [] | Some text \<Rightarrow> text))"

definition arguments_part :: "tool_call_chunk \<Rightarrow> string" where
  "arguments_part c =
     (case chunk_function c of None \<Rightarrow> []
      | Some f \<Rightarrow> (case delta_arguments f of None \<Rightarrow> [] | Some text \<Rightarrow> text))"

text \<open>
  A stream is a fragmentation of the calls \<open>calls\<close> when every fragment belongs to one of
  them, and the fragments of call \<open>i\<close>, in arrival order, are not none, carry its id and
  its name whole or not at all (at least once when it is not empty), and carry pieces of
  its arguments text that concatenate to it. Nothing is said about how the fragments of
  different calls interleave.
\<close>

definition carries_whole :: "string \<Rightarrow> string list \<Rightarrow> bool" where
  "carries_whole text parts =
     ((\<forall>p \<in> set parts. p = [] \<or> p = text) \<and> (text \<noteq> [] \<longrightarrow> text \<in> set parts))"

definition fragmentation :: "tool_call list \<Rightarrow> tool_call_chunk list \<Rightarrow> bool" where
  "fragmentation calls chunks =
     ((\<forall>c \<in> set chunks. index c < length calls)
      \<and> (\<forall>i \<in> {..<length calls}.
            let own = filter (\<lambda>c. index c = i) chunks in
              own \<noteq> []
            \<and> carries_whole (call_id (calls ! i)) (map id_part own)
            \<and> carries_whole (fn_name (calls ! i)) (map name_part own)
            \<and> concat (map arguments_part own) = fn_arguments (calls ! i)))"

text \<open>The unsplit delivery: one fragment per call, in index order, carrying all of it.\<close>

definition whole_chunk :: "nat \<Rightarrow> tool_call \<Rightarrow> tool_call_chunk" where
  "whole_chunk i call =
     \<lparr>index = i, chunk_id = Some (call_id call),
      chunk_function = Some \<lparr>delta_name = Some (fn_name call),
                              delta_arguments = Some (fn_arguments call)\<rparr>\<rparr>"

definition unsplit :: "tool_call list \<Rightarrow> tool_call_chunk list" where
  "unsplit calls = map (\<lambda>i. whole_chunk i (calls ! i)) [0..<length calls]"

text \<open>The entry at an index of the working list, a placeholder beyond its end.\<close>

definition get_call :: "tool_call list \<Rightarrow> nat \<Rightarrow> tool_call" where
  "get_call acc i = (if i < length acc then acc ! i else placeholder)"

section \<open>File contexts in the conversation history\<close>

text \<open>
  The marker \<open>f"User added file '{file_path}'"\<close> and the entry that
  \<open>add_file_context_smartly\<close> appends, whose content is the marker followed by
  \<open>". Content:\n\n"\<close> and the file's text.
\<close>

definition marker_of :: "string \<Rightarrow> string" where
  "marker_of file_path = ''User added file '' @ [CHR 0x27] @ file_path @ [CHR 0x27]"

definition content_separator :: string where
  "content_separator = ''. Content:'' @ [CHR 0x0A, CHR 0x0A]"

definition file_context_entry :: "string \<Rightarrow> string \<Rightarrow> message" where
  "file_context_entry file_path text =
     \<lparr>role = System, content = marker_of file_path @ content_separator @ text,
      tool_calls = [], tool_call_id = None, name = None\<rparr>"

text \<open>
  The loop that removes the oldest file contexts: \<open>removed_count\<close> is the loop's counter
  and \<open>limit\<close> is \<open>file_context_count - max_context_files + 1\<close>.
\<close>

fun evict_oldest :: "message list \<Rightarrow> nat \<Rightarrow> int \<Rightarrow> message list" where
  "evict_oldest [] removed_count limit = []"
| "evict_oldest (msg # rest) removed_count limit =
     (if role msg = System \<and> mentions_added_file msg \<and> int removed_count < limit
      then evict_oldest rest (Suc removed_count) limit
      else msg # evict_oldest rest removed_count limit)"

text \<open>The source changes the list in place; the model returns the new list.\<close>

definition add_file_context_smartly ::
  "message list \<Rightarrow> string \<Rightarrow> string \<Rightarrow> int \<Rightarrow> message list" where
  "add_file_context_smartly conversation_history file_path text max_context_files =
     (let marker = marker_of file_path;
          h1 = filter (\<lambda>msg. \<not> (role msg = System \<and> py_in marker (content msg)))
                 conversation_history;
          file_context_count =
            length (filter (\<lambda>msg. role msg = System \<and> mentions_added_file msg) h1);
          h2 = (if int file_context_count \<ge> max_context_files
                then evict_oldest h1 0 (int file_context_count - max_context_files + 1)
                else h1)
      in h2 @ [file_context_entry file_path text])"

text \<open>
  An entry is the file context of a path when it is a system entry whose content starts
  with the path's marker and the separator, as the entries made by
  \<open>add_file_context_smartly\<close> do. A file-context entry, for the count against
  \<open>max_context_files\<close>, is what the source counts: a system entry whose content contains
  \<open>User added file\<close>.
\<close>

definition is_context_of :: "string \<Rightarrow> message \<Rightarrow> bool" where
  "is_context_of file_path msg =
     (role msg = System \<and> prefix (marker_of file_path @ content_separator) (content msg))"

definition is_file_context :: "message \<Rightarrow> bool" where
  "is_file_context msg = (role msg = System \<and> mentions_added_file msg)"

section \<open>More string primitives\<close>

text \<open>
  \<open>str.strip\<close>, \<open>str.lower\<close> (on the ASCII letters), \<open>str.split('\n')\<close>,
  \<open>sep.join\<close> and \<open>Path(p).name\<close>.
\<close>

definition py_isspace :: "char \<Rightarrow> bool" where
  "py_isspace c =
     (let n = (of_char c :: nat)
      in (9 \<le> n \<and> n \<le> 13) \<or> (28 \<le> n \<and> n \<le> 32) \<or> n = 133 \<or> n = 160)"

definition py_strip :: "string \<Rightarrow> string" where
  "py_strip s = rev (dropWhile py_isspace (rev (dropWhile py_isspace s)))"

definition py_lower :: "string \<Rightarrow> string" where
  "py_lower s =
     map (\<lambda>c. let n = (of_char c :: nat)
               in if 65 \<le> n \<and> n \<le> 90 then char_of (n + 32) else c) s"

fun split_lines :: "string \<Rightarrow> string list" where
  "split_lines [] = [[]]"
| "split_lines (c # cs) =
     (if c = CHR 0x0A then [] # split_lines cs
      else (case split_lines cs of [] \<Rightarrow> [[c]] | l # ls \<Rightarrow> (c # l) # ls))"

fun py_join :: "string \<Rightarrow> string list \<Rightarrow> string" where
  "py_join sep [] = []"
| "py_join sep [x] = x"
| "py_join sep (x # y # ys) = x @ sep @ py_join sep (y # ys)"

definition path_name :: "string \<Rightarrow> string" where
  "path_name p =
     (case filter (\<lambda>part. part \<noteq> [] \<and> part \<noteq> ''.'') (path_parts p) of
        [] \<Rightarrow> []
      | part # parts \<Rightarrow> last (part # parts))"

text \<open>The test \<open>reply.strip().lower() in ["y", "yes"]\<close>.\<close>

definition says_yes :: "string \<Rightarrow> bool" where
  "says_yes reply = (py_lower (py_strip reply) \<in> set [''y'', ''yes''])"

text \<open>
  \<open>str(e)\<close> of a caught exception. The wording is Python's; the model gives each kind
  of exception one fixed text.
\<close>

fun exn_text :: "py_exn \<Rightarrow> string" where
  "exn_text (ValueError Original_snippet_not_found) = ''Original snippet not found''"
| "exn_text (ValueError (Ambiguous_edit n)) = ''Ambiguous edit''"
| "exn_text (ValueError Home_directory_references_not_allowed) =
     ''Home directory references not allowed''"
| "exn_text (ValueError File_content_exceeds_size_limit) =
     ''File content exceeds 4MB size limit''"
| "exn_text FileNotFoundError = ''[Errno 2] No such file or directory''"
| "exn_text CalledProcessError = ''Command returned non-zero exit status''"
| "exn_text JSONDecodeError = ''Expecting value''"
| "exn_text (KeyError k) = [CHR 0x27] @ k @ [CHR 0x27]"
| "exn_text TypeError = ''unsupported argument type''"
| "exn_text AttributeError = ''object has no attribute get''"

section \<open>Git operations\<close>

definition set_enabled :: "bool \<Rightarrow> world \<Rightarrow> world" where
  "set_enabled b w = w\<lparr>git := (git w)\<lparr>enabled := b\<rparr>\<rparr>"

definition set_branch :: "string \<Rightarrow> world \<Rightarrow> world" where
  "set_branch b w = w\<lparr>git := (git w)\<lparr>branch := Some b\<rparr>\<rparr>"

definition gitignore_patterns :: "string list" where
  "gitignore_patterns =
     [''# Python'', ''__pycache__/'', ''*.pyc'', ''*.pyo'', ''*.pyd'', ''.Python'', ''env/'',
      ''venv/'', ''.venv'', ''ENV/'', ''*.egg-info/'', ''dist/'', ''build/'',
      ''.pytest_cache/'', ''.mypy_cache/'', ''.coverage'', ''htmlcov/'', '''', ''# Env'',
      ''.env'', ''.env*.local'', ''!.env.example'', '''', ''# IDE'', ''.vscode/'', ''.idea/'',
      ''*.swp'', ''*.swo'', ''.DS_Store'', '''', ''# Logs'', ''*.log'', ''logs/'', '''',
      ''# Temp'', ''*.tmp'', ''*.temp'', ''*.bak'', ''*.cache'', ''Thumbs.db'',
      ''desktop.ini'', '''', ''# Node'', ''node_modules/'', ''npm-debug.log*'',
      ''yarn-debug.log*'', ''pnpm-lock.yaml'', ''package-lock.json'', '''', ''# Local'',
      ''*.session'', ''*.checkpoint'']"

text \<open>
  \<open>create_gitignore\<close>. Prompts are given by their text without the leading symbol. The
  file is written directly (not through \<open>create_file\<close>) under the relative name
  \<open>.gitignore\<close>.
\<close>

definition create_gitignore :: "env \<Rightarrow> world \<Rightarrow> world" where
  "create_gitignore e w =
     (if files w ''.gitignore'' \<noteq> None then w
      else
        let patterns =
              (if says_yes (prompt_reply e w ''Add custom patterns? (y/n, default n): '')
               then gitignore_patterns @ [CHR 0x0A # ''# Custom''] @ custom_patterns e w
               else gitignore_patterns);
            text = py_join [CHR 0x0A] patterns @ [CHR 0x0A];
            w1 = w\<lparr>files := (files w)(''.gitignore'' \<mapsto> text),
                   writes := writes w @ [(''.gitignore'', text)]\<rparr>
        in if enabled (git w1) then snd (stage_file e ''.gitignore'' w1) else w1)"

text \<open>
  \<open>get_git_status_porcelain\<close>: a non-zero exit is \<open>CalledProcessError\<close> (the call has
  \<open>check=True\<close>), reported and answered with no changes; a missing executable switches
  git off.
\<close>

definition get_git_status_porcelain ::
  "env \<Rightarrow> world \<Rightarrow> (bool \<times> (string \<times> string) list) \<times> world" where
  "get_git_status_porcelain e w =
     (if \<not> enabled (git w) then ((False, []), w)
      else case subprocess_run e [''git'', ''status'', ''--porcelain''] w of
             (NotInstalled, w1) \<Rightarrow> ((False, []), set_enabled False w1)
           | (Exited returncode out err, w1) \<Rightarrow>
               if returncode \<noteq> 0 then ((False, []), w1)
               else if py_strip out = [] then ((False, []), w1)
               else ((True, map (\<lambda>line. (take 2 line, drop 3 line))
                             (filter (\<lambda>line. line \<noteq> []) (split_lines (py_strip out)))),
                     w1))"

definition user_commit_changes :: "env \<Rightarrow> string \<Rightarrow> world \<Rightarrow> bool \<times> world" where
  "user_commit_changes e message w =
     (if \<not> enabled (git w) then (False, w)
      else case subprocess_run e [''git'', ''add'', ''-A''] w of
        (NotInstalled, w1) \<Rightarrow> (False, set_enabled False w1)
      | (Exited rc1 out1 err1, w1) \<Rightarrow>
          (case subprocess_run e [''git'', ''diff'', ''--staged'', ''--quiet''] w1 of
             (NotInstalled, w2) \<Rightarrow> (False, set_enabled False w2)
           | (Exited rc2 out2 err2, w2) \<Rightarrow>
               if rc2 = 0 then (False, w2)
               else (case subprocess_run e [''git'', ''commit'', ''-m'', message] w2 of
                  (NotInstalled, w3) \<Rightarrow> (False, set_enabled False w3)
                | (Exited rc3 out3 err3, w3) \<Rightarrow>
                    if rc3 = 0
                    then (case subprocess_run e [''git'', ''log'', ''--oneline'', ''-1''] w3 of
                            (NotInstalled, w4) \<Rightarrow> (False, set_enabled False w4)
                          | (Exited rc4 out4 err4, w4) \<Rightarrow> (True, w4))
                    else (False, w3))))"

definition initialize_git_repo_cmd :: "env \<Rightarrow> world \<Rightarrow> bool \<times> world" where
  "initialize_git_repo_cmd e w =
     (if git_dir_exists e w then (True, set_enabled True w)
      else case subprocess_run e [''git'', ''init''] w of
        (NotInstalled, w1) \<Rightarrow> (False, set_enabled False w1)
      | (Exited rc1 out1 err1, w1) \<Rightarrow>
          if rc1 \<noteq> 0 then (False, w1)
          else
            (case subprocess_run e [''git'', ''rev-parse'', ''--abbrev-ref'', ''HEAD'']
                    (set_enabled True w1) of
               (NotInstalled, w2) \<Rightarrow> (False, set_enabled False w2)
             | (Exited rc2 out2 err2, w2) \<Rightarrow>
                 let w3 = set_branch (if rc2 = 0 then py_strip out2 else ''main'') w2;
                     w4 = (if files w3 ''.gitignore'' = None
                              \<and> says_yes (prompt_reply e w3
                                    ''No .gitignore. Create one? (y/n, default y): '')
                           then create_gitignore e w3
                           else if enabled (git w3) \<and> files w3 ''.gitignore'' \<noteq> None
                           then snd (stage_file e ''.gitignore'' w3)
                           else w3);
                     w5 = (if says_yes (prompt_reply e w4 ''Initial commit? (y/n, default n): '')
                           then snd (user_commit_changes e ''Initial commit'' w4)
                           else w4)
                 in (True, w5)))"

definition create_git_branch_cmd :: "env \<Rightarrow> string \<Rightarrow> world \<Rightarrow> bool \<times> world" where
  "create_git_branch_cmd e branch_name w =
     (if \<not> enabled (git w) then (True, w)
      else if branch_name = [] then (True, w)
      else case subprocess_run e [''git'', ''branch'', ''--list'', branch_name] w of
        (NotInstalled, w1) \<Rightarrow> (False, set_enabled False w1)
      | (Exited rc1 out1 err1, w1) \<Rightarrow>
          if py_strip out1 \<noteq> []
          then (case subprocess_run e [''git'', ''branch'', ''--show-current''] w1 of
                  (NotInstalled, w2) \<Rightarrow> (False, set_enabled False w2)
                | (Exited rc2 out2 err2, w2) \<Rightarrow>
                    if py_strip out2 \<noteq> branch_name
                       \<and> says_yes (prompt_reply e w2
                             (''Switch to '' @ [CHR 0x27] @ branch_name @ [CHR 0x27]
                                @ ''? (y/n, default y): ''))
                    then (case subprocess_run e [''git'', ''checkout'', branch_name] w2 of
                            (NotInstalled, w3) \<Rightarrow> (False, set_enabled False w3)
                          | (Exited rc3 out3 err3, w3) \<Rightarrow>
                              if rc3 \<noteq> 0 then (False, w3)
                              else (True, set_branch branch_name w3))
                    else (True, w2))
          else (case subprocess_run e [''git'', ''checkout'', ''-b'', branch_name] w1 of
                  (NotInstalled, w2) \<Rightarrow> (False, set_enabled False w2)
                | (Exited rc2 out2 err2, w2) \<Rightarrow>
                    if rc2 \<noteq> 0 then (False, w2)
                    else (True, set_branch branch_name w2)))"

text \<open>
  \<open>show_git_status_cmd\<close> runs \<open>git branch --show-current\<close> outside any handler: a missing
  executable there leaves the function as an exception.
\<close>

definition show_git_status_cmd :: "env \<Rightarrow> world \<Rightarrow> (py_exn + bool) \<times> world" where
  "show_git_status_cmd e w =
     (if \<not> enabled (git w) then (Inr True, w)
      else let w1 = snd (get_git_status_porcelain e w)
           in case subprocess_run e [''git'', ''branch'', ''--show-current''] w1 of
                (NotInstalled, w2) \<Rightarrow> (Inl FileNotFoundError, w2)
              | (Exited rc out err, w2) \<Rightarrow> (Inr True, w2))"

subsection \<open>The handlers behind the git tools\<close>

definition llm_git_init :: "env \<Rightarrow> world \<Rightarrow> string \<times> world" where
  "llm_git_init e w =
     (if git_dir_exists e w then (''Git repository already exists.'', set_enabled True w)
      else case subprocess_run e [''git'', ''init''] w of
        (NotInstalled, w1) \<Rightarrow>
          (''Failed to initialize Git repository: '' @ exn_text FileNotFoundError,
           set_enabled False w1)
      | (Exited rc1 out1 err1, w1) \<Rightarrow>
          if rc1 \<noteq> 0
          then (''Failed to initialize Git repository: '' @ exn_text CalledProcessError, w1)
          else
            (case subprocess_run e [''git'', ''rev-parse'', ''--abbrev-ref'', ''HEAD'']
                    (set_enabled True w1) of
               (NotInstalled, w2) \<Rightarrow>
                 (''Failed to initialize Git repository: '' @ exn_text FileNotFoundError,
                  set_enabled False w2)
             | (Exited rc2 out2 err2, w2) \<Rightarrow>
                 let b = (if rc2 = 0 then py_strip out2 else ''main'');
                     w3 = set_branch b w2;
                     w4 = (if files w3 ''.gitignore'' = None then create_gitignore e w3
                           else if enabled (git w3) then snd (stage_file e ''.gitignore'' w3)
                           else w3)
                 in (''Git repository initialized successfully in '' @ cwd e
                       @ ''/.git/ (branch: '' @ b @ '').'', w4)))"

text \<open>The loop of \<open>llm_git_add\<close>: the paths staged and the paths that failed, in order.\<close>

fun stage_all :: "env \<Rightarrow> string list \<Rightarrow> world \<Rightarrow> (string list \<times> string list) \<times> world" where
  "stage_all e [] w = (([], []), w)"
| "stage_all e (fp_str # rest) w =
     (let norm_fp = normalize_path e fp_str;
          (ok, w1) = stage_file e norm_fp w;
          ((staged_ok, failed_stage), w2) = stage_all e rest w1
      in if ok then ((norm_fp # staged_ok, failed_stage), w2)
         else ((staged_ok, norm_fp # failed_stage), w2))"

definition llm_git_add :: "env \<Rightarrow> string list \<Rightarrow> world \<Rightarrow> string \<times> world" where
  "llm_git_add e file_paths w =
     (if \<not> enabled (git w) then (''Git not initialized.'', w)
      else if file_paths = [] then (''No file paths to stage.'', w)
      else
        let ((staged_ok, failed_stage), w1) = stage_all e file_paths w;
            res = (if staged_ok \<noteq> []
                   then [''Staged: '' @ py_join '', '' (map path_name staged_ok)] else [])
                  @ (if failed_stage \<noteq> []
                     then [''Failed to stage: '' @ py_join '', '' (map path_name failed_stage)]
                     else [])
        in (if res \<noteq> [] then py_join ''. '' res @ ''.'' else ''No files staged. Check paths.'',
            w1))"

definition llm_git_commit :: "env \<Rightarrow> string \<Rightarrow> world \<Rightarrow> string \<times> world" where
  "llm_git_commit e message w =
     (if \<not> enabled (git w) then (''Git not initialized.'', w)
      else if message = [] then (''Commit message empty.'', w)
      else case subprocess_run e [''git'', ''diff'', ''--staged'', ''--quiet''] w of
        (NotInstalled, w1) \<Rightarrow>
          (''Git commit error: '' @ exn_text FileNotFoundError, set_enabled False w1)
      | (Exited rc1 out1 err1, w1) \<Rightarrow>
          if rc1 = 0 then (''No changes staged. Use git_add first.'', w1)
          else (case subprocess_run e [''git'', ''commit'', ''-m'', message] w1 of
             (NotInstalled, w2) \<Rightarrow>
               (''Git commit error: '' @ exn_text FileNotFoundError, set_enabled False w2)
           | (Exited rc2 out2 err2, w2) \<Rightarrow>
               if rc2 = 0
               then (case subprocess_run e [''git'', ''log'', ''-1'', ''--pretty=%h %s''] w2 of
                       (NotInstalled, w3) \<Rightarrow>
                         (''Git commit error: '' @ exn_text FileNotFoundError,
                          set_enabled False w3)
                     | (Exited rc3 out3 err3, w3) \<Rightarrow>
                         (''Committed. Commit: '' @ py_strip out3, w3))
               else (''Failed to commit: '' @ py_strip err2, w2)))"

definition branch_failed :: "string \<Rightarrow> py_exn \<Rightarrow> string" where
  "branch_failed bn x =
     ''Branch op failed for '' @ [CHR 0x27] @ bn @ [CHR 0x27] @ '': '' @ exn_text x"

definition llm_git_create_branch :: "env \<Rightarrow> string \<Rightarrow> world \<Rightarrow> string \<times> world" where
  "llm_git_create_branch e branch_name w =
     (if \<not> enabled (git w) then (''Git not initialized.'', w)
      else let bn = py_strip branch_name in
        if bn = [] then (''Branch name empty.'', w)
        else case subprocess_run e
                    [''git'', ''rev-parse'', ''--verify'', ''refs/heads/'' @ bn] w of
          (NotInstalled, w1) \<Rightarrow> (branch_failed bn FileNotFoundError, set_enabled False w1)
        | (Exited rc1 out1 err1, w1) \<Rightarrow>
            if rc1 = 0
            then (case subprocess_run e [''git'', ''branch'', ''--show-current''] w1 of
                    (NotInstalled, w2) \<Rightarrow>
                      (branch_failed bn FileNotFoundError, set_enabled False w2)
                  | (Exited rc2 out2 err2, w2) \<Rightarrow>
                      if py_strip out2 = bn
                      then (''Already on branch '' @ [CHR 0x27] @ bn @ [CHR 0x27] @ ''.'', w2)
                      else (case subprocess_run e [''git'', ''checkout'', bn] w2 of
                              (NotInstalled, w3) \<Rightarrow>
                                (branch_failed bn FileNotFoundError, set_enabled False w3)
                            | (Exited rc3 out3 err3, w3) \<Rightarrow>
                                if rc3 \<noteq> 0 then (branch_failed bn CalledProcessError, w3)
                                else (''Branch '' @ [CHR 0x27] @ bn @ [CHR 0x27]
                                        @ '' exists. Switched to it.'',
                                      set_branch bn w3)))
            else (case subprocess_run e [''git'', ''checkout'', ''-b'', bn] w1 of
                    (NotInstalled, w2) \<Rightarrow>
                      (branch_failed bn FileNotFoundError, set_enabled False w2)
                  | (Exited rc2 out2 err2, w2) \<Rightarrow>
                      if rc2 \<noteq> 0 then (branch_failed bn CalledProcessError, w2)
                      else (''Created & switched to new branch '' @ [CHR 0x27] @ bn
                              @ [CHR 0x27] @ ''.'',
                            set_branch bn w2)))"

definition status_lines :: "string \<Rightarrow> (string \<times> string) list \<Rightarrow> string list" where
  "status_lines branch_name changed =
     (let untracked = map snd (filter (\<lambda>(code, filename). code = ''??'') changed);
          unstaged = map (\<lambda>(code, filename). py_strip code @ '' '' @ filename)
                       (filter (\<lambda>(code, filename). code \<noteq> ''??'' \<and> prefix '' '' code) changed);
          staged = map (\<lambda>(code, filename). py_strip code @ '' '' @ filename)
                     (filter (\<lambda>(code, filename). code \<noteq> ''??'' \<and> \<not> prefix '' '' code) changed)
      in [''On branch '' @ [CHR 0x27] @ branch_name @ [CHR 0x27] @ ''.'']
         @ (if staged \<noteq> []
            then (CHR 0x0A # ''Changes to be committed:'') # map (\<lambda>s. ''  '' @ s) staged
            else [])
         @ (if unstaged \<noteq> []
            then (CHR 0x0A # ''Changes not staged for commit:'') # map (\<lambda>s. ''  '' @ s) unstaged
            else [])
         @ (if untracked \<noteq> []
            then (CHR 0x0A # ''Untracked files:'') # map (\<lambda>f. ''  '' @ f) untracked
            else []))"

definition llm_git_status :: "env \<Rightarrow> world \<Rightarrow> string \<times> world" where
  "llm_git_status e w =
     (if \<not> enabled (git w) then (''Git not initialized.'', w)
      else case subprocess_run e [''git'', ''branch'', ''--show-current''] w of
        (NotInstalled, w1) \<Rightarrow>
          (''Git status error: '' @ exn_text FileNotFoundError, set_enabled False w1)
      | (Exited rc out err, w1) \<Rightarrow>
          let branch_name = (if rc = 0 \<and> py_strip out \<noteq> [] then py_strip out
                             else ''detached HEAD'');
              ((has_changes, changed), w2) = get_git_status_porcelain e w1
          in if \<not> has_changes
             then (''On branch '' @ [CHR 0x27] @ branch_name @ [CHR 0x27]
                     @ ''. Working tree clean.'', w2)
             else (py_join [CHR 0x0A] (status_lines branch_name changed), w2))"

section \<open>Validation of the accumulated tool calls\<close>







section \<open>Dispatch of a tool call\<close>

text \<open>
  The parsed arguments are JSON values. \<open>args[key]\<close> raises \<open>KeyError\<close> on a dict without
  the key and \<open>TypeError\<close> on a value that is not a dict; \<open>args.get(key, default)\<close>
  raises \<open>AttributeError\<close> on a value that is not a dict. A later pair wins over an
  earlier one with the same key, as in a Python dict. An argument whose JSON type is not
  the one the tool schema declares is modelled by a \<open>TypeError\<close> at its first use: the
  text returned for such a call may differ from the source's, not the fact that a text is
  returned.
\<close>

definition getitem :: "json \<Rightarrow> string \<Rightarrow> py_exn + json" where
  "getitem args key =
     (case args of
        JObj pairs \<Rightarrow> (case map_of (rev pairs) key of
                         None \<Rightarrow> Inl (KeyError key) | Some v \<Rightarrow> Inr v)
      | _ \<Rightarrow> Inl TypeError)"

definition get_default :: "json \<Rightarrow> string \<Rightarrow> json \<Rightarrow> py_exn + json" where
  "get_default args key dflt =
     (case args of
        JObj pairs \<Rightarrow> (case map_of (rev pairs) key of
                         None \<Rightarrow> Inr dflt | Some v \<Rightarrow> Inr v)
      | _ \<Rightarrow> Inl AttributeError)"

definition as_str :: "json \<Rightarrow> py_exn + string" where
  "as_str v = (case v of JStr s \<Rightarrow> Inr s | _ \<Rightarrow> Inl TypeError)"

text \<open>Iteration over a JSON value: the items of a list, the keys of a dict, the characters
  of a string; other values are not iterable.\<close>

definition py_iter :: "json \<Rightarrow> py_exn + json list" where
  "py_iter v =
     (case v of
        JArr items \<Rightarrow> Inr items
      | JObj pairs \<Rightarrow> Inr (map (\<lambda>(k, x). JStr k) pairs)
      | JStr s \<Rightarrow> Inr (map (\<lambda>c. JStr [c]) s)
      | _ \<Rightarrow> Inl TypeError)"

fun all_str :: "json list \<Rightarrow> py_exn + string list" where
  "all_str [] = Inr []"
| "all_str (v # vs) =
     (case as_str v of
        Inl x \<Rightarrow> Inl x
      | Inr s \<Rightarrow> (case all_str vs of Inl x \<Rightarrow> Inl x | Inr ss \<Rightarrow> Inr (s # ss)))"

definition str_list :: "json \<Rightarrow> py_exn + string list" where
  "str_list v = (case py_iter v of Inl x \<Rightarrow> Inl x | Inr items \<Rightarrow> all_str items)"

text \<open>\<open>str(len(xs))\<close>: a natural number in decimal.\<close>

fun nat_text :: "nat \<Rightarrow> string" where
  "nat_text n =
     (if n < 10 then [char_of (48 + n)]
      else nat_text (n div 10) @ [char_of (48 + n mod 10)])"

definition quoted :: "string \<Rightarrow> string" where
  "quoted s = [CHR 0x27] @ s @ [CHR 0x27]"

definition ensure_file_in_context :: "env \<Rightarrow> string \<Rightarrow> world \<Rightarrow> bool \<times> world" where
  "ensure_file_in_context e file_path w =
     (let normalized_path = normalize_path e file_path
      in case read_local_file e normalized_path w of
           Inl x \<Rightarrow> (False, w)
         | Inr text \<Rightarrow>
             (True,
              if \<not> list_ex (\<lambda>msg. role msg = System
                                   \<and> py_in (marker_of normalized_path) (content msg))
                      (history w)
              then w\<lparr>history := add_file_context_smartly (history w) normalized_path text 5\<rparr>
              else w))"

definition file_separator :: string where
  "file_separator =
     [CHR 0x0A, CHR 0x0A] @ replicate 20 CHR ''='' @ '' FILE SEP '' @ replicate 20 CHR ''=''
       @ [CHR 0x0A, CHR 0x0A]"

definition read_one :: "env \<Rightarrow> world \<Rightarrow> string \<Rightarrow> string" where
  "read_one e w fp =
     (let norm_path = normalize_path e fp
      in case read_local_file e norm_path w of
           Inr text \<Rightarrow> ''Content of '' @ quoted norm_path @ '':'' @ [CHR 0x0A, CHR 0x0A] @ text
         | Inl x \<Rightarrow> ''Error reading '' @ quoted fp @ '': '' @ exn_text x)"

text \<open>
  The loop of \<open>create_multiple_files\<close>: every exception of one file is caught and
  recorded. The record names the file by \<open>f_info.get('path', '?path')\<close>, which itself
  raises \<open>AttributeError\<close> when the item is not a dict; that one ends the loop.
\<close>

definition create_one :: "env \<Rightarrow> json \<Rightarrow> world \<Rightarrow> (py_exn + string) \<times> world" where
  "create_one e f_info w =
     (case getitem f_info ''path'' of
        Inl x \<Rightarrow> (Inl x, w)
      | Inr pv \<Rightarrow>
          (case getitem f_info ''content'' of
             Inl x \<Rightarrow> (Inl x, w)
           | Inr cv \<Rightarrow>
               (case as_str pv of
                  Inl x \<Rightarrow> (Inl x, w)
                | Inr path \<Rightarrow>
                    (case as_str cv of
                       Inl x \<Rightarrow> (Inl x, w)
                     | Inr text \<Rightarrow>
                         (case create_file e path text w of
                            (Inl x, w1) \<Rightarrow> (Inl x, w1)
                          | (Inr u, w1) \<Rightarrow> (Inr path, w1))))))"

definition path_for_error :: "json \<Rightarrow> py_exn + string" where
  "path_for_error f_info =
     (case get_default f_info ''path'' (JStr ''?path'') of
        Inl x \<Rightarrow> Inl x
      | Inr (JStr s) \<Rightarrow> Inr s
      | Inr v \<Rightarrow> Inr ''<value>'')"

fun create_all ::
  "env \<Rightarrow> json list \<Rightarrow> world \<Rightarrow> (py_exn + string list \<times> string list) \<times> world" where
  "create_all e [] w = (Inr ([], []), w)"
| "create_all e (f_info # rest) w =
     (case create_one e f_info w of
        (Inr path, w1) \<Rightarrow>
          (case create_all e rest w1 of
             (Inl x, w2) \<Rightarrow> (Inl x, w2)
           | (Inr (created, errors), w2) \<Rightarrow> (Inr (path # created, errors), w2))
      | (Inl x, w1) \<Rightarrow>
          (case path_for_error f_info of
             Inl y \<Rightarrow> (Inl y, w1)
           | Inr shown \<Rightarrow>
               (case create_all e rest w1 of
                  (Inl y, w2) \<Rightarrow> (Inl y, w2)
                | (Inr (created, errors), w2) \<Rightarrow>
                    (Inr (created,
                          (''Error creating '' @ shown @ '': '' @ exn_text x) # errors), w2))))"

definition created_summary :: "string list \<Rightarrow> string list \<Rightarrow> string" where
  "created_summary created errors =
     (let res_parts =
            (if created \<noteq> []
             then [''Created/updated '' @ nat_text (length created) @ '' files: ''
                     @ py_join '', '' created]
             else [])
            @ (if errors \<noteq> [] then [''Errors: '' @ py_join ''; '' errors] else [])
      in if res_parts \<noteq> [] then py_join ''. '' res_parts else ''No files processed.'')"

definition edit_file_tool :: "env \<Rightarrow> json \<Rightarrow> world \<Rightarrow> (py_exn + string) \<times> world" where
  "edit_file_tool e args w =
     (case getitem args ''file_path'' of
        Inl x \<Rightarrow> (Inl x, w)
      | Inr fv \<Rightarrow>
          (case as_str fv of
             Inl x \<Rightarrow> (Inl x, w)
           | Inr fp \<Rightarrow>
               (case ensure_file_in_context e fp w of
                  (False, w1) \<Rightarrow>
                    (Inr (''Error: Could not read '' @ quoted fp @ '' for editing.''), w1)
                | (True, w1) \<Rightarrow>
                    let failed = (\<lambda>x. ''Error during edit_file call for '' @ quoted fp @ '': ''
                                        @ exn_text x @ ''.'')
                    in (case getitem args ''original_snippet'' of
                          Inl x \<Rightarrow> (Inr (failed x), w1)
                        | Inr ov \<Rightarrow>
                            (case getitem args ''new_snippet'' of
                               Inl x \<Rightarrow> (Inr (failed x), w1)
                             | Inr nv \<Rightarrow>
                                 (case as_str ov of
                                    Inl x \<Rightarrow> (Inr (failed x), w1)
                                  | Inr original_snippet \<Rightarrow>
                                      (case as_str nv of
                                         Inl x \<Rightarrow> (Inr (failed x), w1)
                                       | Inr new_snippet \<Rightarrow>
                                           (case apply_diff_edit e fp original_snippet
                                                   new_snippet w1 of
                                              (Inl x, w2) \<Rightarrow> (Inr (failed x), w2)
                                            | (Inr report, w2) \<Rightarrow>
                                                (Inr (''Edit attempt on '' @ quoted fp
                                                        @ ''. Check console.''), w2)))))))))"

text \<open>
  The body of the \<open>try\<close> of \<open>execute_function_call_dict\<close>: a text, or the exception
  that leaves the body.
\<close>

definition execute_body :: "env \<Rightarrow> tool_call \<Rightarrow> world \<Rightarrow> (py_exn + string) \<times> world" where
  "execute_body e tool_call_dict w =
     (let func_name = fn_name tool_call_dict
      in case json_loads e (fn_arguments tool_call_dict) of
        None \<Rightarrow> (Inl JSONDecodeError, w)
      | Some args \<Rightarrow>
          if func_name = ''read_file'' then
            (case getitem args ''file_path'' of
               Inl x \<Rightarrow> (Inl x, w)
             | Inr v \<Rightarrow>
                 (case as_str v of
                    Inl x \<Rightarrow> (Inl x, w)
                  | Inr fp \<Rightarrow>
                      let norm_path = normalize_path e fp
                      in (case read_local_file e norm_path w of
                            Inl x \<Rightarrow> (Inl x, w)
                          | Inr text \<Rightarrow>
                              (Inr (''Content of file '' @ quoted norm_path @ '':''
                                      @ [CHR 0x0A, CHR 0x0A] @ text), w))))
          else if func_name = ''read_multiple_files'' then
            (case getitem args ''file_paths'' of
               Inl x \<Rightarrow> (Inl x, w)
             | Inr v \<Rightarrow>
                 (case str_list v of
                    Inl x \<Rightarrow> (Inl x, w)
                  | Inr fps \<Rightarrow> (Inr (py_join file_separator (map (read_one e w) fps)), w)))
          else if func_name = ''create_file'' then
            (case getitem args ''file_path'' of
               Inl x \<Rightarrow> (Inl x, w)
             | Inr pv \<Rightarrow>
                 (case getitem args ''content'' of
                    Inl x \<Rightarrow> (Inl x, w)
                  | Inr cv \<Rightarrow>
                      (case as_str pv of
                         Inl x \<Rightarrow> (Inl x, w)
                       | Inr path \<Rightarrow>
                           (case as_str cv of
                              Inl x \<Rightarrow> (Inl x, w)
                            | Inr text \<Rightarrow>
                                (case create_file e path text w of
                                   (Inl x, w1) \<Rightarrow> (Inl x, w1)
                                 | (Inr u, w1) \<Rightarrow>
                                     (Inr (''File '' @ quoted path @ '' created/updated.''),
                                      w1))))))
          else if func_name = ''create_multiple_files'' then
            (case getitem args ''files'' of
               Inl x \<Rightarrow> (Inl x, w)
             | Inr v \<Rightarrow>
                 (case py_iter v of
                    Inl x \<Rightarrow> (Inl x, w)
                  | Inr items \<Rightarrow>
                      (case create_all e items w of
                         (Inl x, w1) \<Rightarrow> (Inl x, w1)
                       | (Inr (created, errors), w1) \<Rightarrow>
                           (Inr (created_summary created errors), w1))))
          else if func_name = ''edit_file'' then edit_file_tool e args w
          else if func_name = ''git_init'' then
            (case llm_git_init e w of (text, w1) \<Rightarrow> (Inr text, w1))
          else if func_name = ''git_add'' then
            (case get_default args ''file_paths'' (JArr []) of
               Inl x \<Rightarrow> (Inl x, w)
             | Inr v \<Rightarrow>
                 (case str_list v of
                    Inl x \<Rightarrow> (Inl x, w)
                  | Inr fps \<Rightarrow> (case llm_git_add e fps w of (text, w1) \<Rightarrow> (Inr text, w1))))
          else if func_name = ''git_commit'' then
            (case get_default args ''message'' (JStr ''Auto commit'') of
               Inl x \<Rightarrow> (Inl x, w)
             | Inr v \<Rightarrow>
                 (case as_str v of
                    Inl x \<Rightarrow> (Inl x, w)
                  | Inr message \<Rightarrow>
                      (case llm_git_commit e message w of (text, w1) \<Rightarrow> (Inr text, w1))))
          else if func_name = ''git_create_branch'' then
            (case get_default args ''branch_name'' (JStr []) of
               Inl x \<Rightarrow> (Inl x, w)
             | Inr v \<Rightarrow>
                 (case as_str v of
                    Inl x \<Rightarrow> (Inl x, w)
                  | Inr branch_name \<Rightarrow>
                      (case llm_git_create_branch e branch_name w of
                         (text, w1) \<Rightarrow> (Inr text, w1))))
          else if func_name = ''git_status'' then
            (case llm_git_status e w of (text, w1) \<Rightarrow> (Inr text, w1))
          else (Inr (''Unknown LLM function: '' @ func_name), w))"

text \<open>
  The handlers of the \<open>try\<close>, in the source's order: \<open>JSONDecodeError\<close>, \<open>KeyError\<close>,
  then every other \<open>Exception\<close>. The function's result is a returned text (\<open>Inr\<close>) or an
  exception that leaves it (\<open>Inl\<close>).
\<close>

definition execute_function_call_dict ::
  "env \<Rightarrow> tool_call \<Rightarrow> world \<Rightarrow> (py_exn + string) \<times> world" where
  "execute_function_call_dict e tool_call_dict w =
     (let func_name = fn_name tool_call_dict
      in case execute_body e tool_call_dict w of
           (Inr text, w1) \<Rightarrow> (Inr text, w1)
         | (Inl JSONDecodeError, w1) \<Rightarrow>
             (Inr (''Error: Invalid JSON args for '' @ func_name @ ''.''), w1)
         | (Inl (KeyError k), w1) \<Rightarrow>
             (Inr (''Error: Missing param for '' @ func_name @ '' (KeyError: ''
                     @ exn_text (KeyError k) @ '').''), w1)
         | (Inl x, w1) \<Rightarrow>
             (Inr (''Unexpected error in '' @ func_name @ '': '' @ exn_text x), w1))"

definition known_functions :: "string list" where
  "known_functions =
     [''read_file'', ''read_multiple_files'', ''create_file'', ''create_multiple_files'',
      ''edit_file'', ''git_init'', ''git_add'', ''git_commit'', ''git_create_branch'',
      ''git_status'']"

section \<open>The end of a turn\<close>





section \<open>Operations of a session\<close>

text \<open>
  What can happen in a session after start-up, as far as \<open>git_context\<close> is concerned: a
  tool call dispatched by the main loop, and the commands \<open>/git init\<close>,
  \<open>/git branch\<close>, \<open>/git status\<close>, \<open>/commit\<close> and \<open>/add\<close> of a file. The other
  commands (\<open>/folder\<close>, \<open>/help\<close>, \<open>/clear\<close>, \<open>/git-info\<close>, \<open>/add\<close> of a directory)
  do not refer to \<open>git_context\<close>.
\<close>

datatype session_op =
  Tool_call tool_call
  | Git_init_command
  | Git_branch_command string
  | Git_status_command
  | Commit_command string
  | Add_file_command string

definition add_file_command :: "env \<Rightarrow> string \<Rightarrow> world \<Rightarrow> world" where
  "add_file_command e path_to_add w =
     (let normalized_path = normalize_path e path_to_add
      in case read_local_file e normalized_path w of
           Inl x \<Rightarrow> w
         | Inr text \<Rightarrow>
             w\<lparr>history := add_file_context_smartly (history w) normalized_path text 5\<rparr>)"

fun step :: "env \<Rightarrow> session_op \<Rightarrow> world \<Rightarrow> world" where
  "step e (Tool_call tool_call_dict) w = snd (execute_function_call_dict e tool_call_dict w)"
| "step e Git_init_command w = snd (initialize_git_repo_cmd e w)"
| "step e (Git_branch_command branch_name) w = snd (create_git_branch_cmd e branch_name w)"
| "step e Git_status_command w = snd (show_git_status_cmd e w)"
| "step e (Commit_command message) w = snd (user_commit_changes e message w)"
| "step e (Add_file_command path_to_add) w = add_file_command e path_to_add w"

definition run_session :: "env \<Rightarrow> session_op list \<Rightarrow> world \<Rightarrow> world" where
  "run_session e ops w = foldl (\<lambda>w' op. step e op w') w ops"

fun runs_git_init :: "session_op \<Rightarrow> bool" where
  "runs_git_init (Tool_call tool_call_dict) = (fn_name tool_call_dict = ''git_init'')"
| "runs_git_init Git_init_command = True"
| "runs_git_init other = False"

section \<open>Sample environments and worlds\<close>

text \<open>
  Concrete instances at which the theorems below are exercised: paths resolve to
  themselves, every subprocess exits with code 0, and only \<open>{}\<close> parses as JSON.
\<close>

definition env_git_ok :: env where
  "env_git_ok = \<lparr>resolve = (\<lambda>p. p), cwd = ''/w'', relative_to_cwd = (\<lambda>p. Some p),
     run = (\<lambda>w cmd. Exited 0 [] []), git_dir_exists = (\<lambda>w. True),
     prompt_reply = (\<lambda>w p. ''n''), custom_patterns = (\<lambda>w. []),
     json_loads = (\<lambda>s. if s = ''{}'' then Some (JObj []) else None)\<rparr>"

definition world_one_file :: "string \<Rightarrow> string \<Rightarrow> world" where
  "world_one_file path text =
     \<lparr>files = [path \<mapsto> text], writes = [],
      git = \<lparr>enabled = True, skip_staging = False, branch = None\<rparr>,
      procs = [], history = []\<rparr>"

text \<open>
  Sample entries, and the history of a session of 25 turns: the persona prompt, a first
  turn in which the assistant calls \<open>git_status\<close> and gets its result, then 24 turns
  of plain question and answer. No turn before the 25th exceeds 50 entries.
\<close>

definition persona :: message where
  "persona = \<lparr>role = System, content = ''You are an elite software engineer'',
     tool_calls = [], tool_call_id = None, name = None\<rparr>"

definition user_says :: message where
  "user_says = \<lparr>role = User, content = ''hi'', tool_calls = [], tool_call_id = None,
     name = None\<rparr>"

definition assistant_says :: message where
  "assistant_says = \<lparr>role = Assistant, content = ''ok'', tool_calls = [],
     tool_call_id = None, name = None\<rparr>"

definition assistant_calls :: message where
  "assistant_calls = \<lparr>role = Assistant, content = [],
     tool_calls = [\<lparr>call_id = ''call_1'', fn_name = ''git_status'', fn_arguments = ''{}''\<rparr>],
     tool_call_id = None, name = None\<rparr>"

definition tool_result :: message where
  "tool_result = \<lparr>role = Tool, content = ''Git not initialized.'', tool_calls = [],
     tool_call_id = Some ''call_1'', name = Some ''git_status''\<rparr>"

definition history_25_turns :: "message list" where
  "history_25_turns =
     persona # user_says # assistant_calls # tool_result
       # concat (replicate 24 [user_says, assistant_says])"

text \<open>
  Two calls, and a stream that delivers them interleaved, the arguments of the first
  call in two pieces and the id and name of each call ahead of its arguments.
\<close>

definition two_calls :: "tool_call list" where
  "two_calls =
     [\<lparr>call_id = ''call_a'', fn_name = ''git_add'', fn_arguments = ''[1, 2, 3]''\<rparr>,
      \<lparr>call_id = ''call_b'', fn_name = ''git_status'', fn_arguments = ''{}''\<rparr>]"

definition interleaved_stream :: "tool_call_chunk list" where
  "interleaved_stream =
     [\<lparr>index = 0, chunk_id = Some ''call_a'',
        chunk_function = Some \<lparr>delta_name = Some ''git_add'', delta_arguments = Some ''''\<rparr>\<rparr>,
      \<lparr>index = 0, chunk_id = None,
        chunk_function = Some \<lparr>delta_name = None, delta_arguments = Some ''[1, ''\<rparr>\<rparr>,
      \<lparr>index = 1, chunk_id = Some ''call_b'',
        chunk_function = Some \<lparr>delta_name = Some ''git_status'', delta_arguments = None\<rparr>\<rparr>,
      \<lparr>index = 0, chunk_id = None,
        chunk_function = Some \<lparr>delta_name = None, delta_arguments = Some ''2, 3]''\<rparr>\<rparr>,
      \<lparr>index = 1, chunk_id = None,
        chunk_function = Some \<lparr>delta_name = None, delta_arguments = Some ''{}''\<rparr>\<rparr>]"

text \<open>A history that already holds the context of one file.\<close>

definition history_with_context :: "message list" where
  "history_with_context = [persona, file_context_entry ''/w/a.py'' ''old text'', user_says]"



text \<open>
  Environments without a git executable: every subprocess invocation fails with
  \<open>FileNotFoundError\<close>. In the first there is no \<open>.git\<close> directory, in the second there
  is one (a repository made where git was installed).
\<close>

definition env_no_git :: env where
  "env_no_git = \<lparr>resolve = (\<lambda>p. p), cwd = ''/w'', relative_to_cwd = (\<lambda>p. Some p),
     run = (\<lambda>w cmd. NotInstalled), git_dir_exists = (\<lambda>w. False),
     prompt_reply = (\<lambda>w p. ''n''), custom_patterns = (\<lambda>w. []),
     json_loads = (\<lambda>s. if s = ''{}'' then Some (JObj []) else None)\<rparr>"

definition env_no_git_repo_present :: env where
  "env_no_git_repo_present = env_no_git\<lparr>git_dir_exists := (\<lambda>w. True)\<rparr>"

definition git_status_call :: tool_call where
  "git_status_call = \<lparr>call_id = ''call_1'', fn_name = ''git_status'', fn_arguments = ''{}''\<rparr>"

definition git_init_call :: tool_call where
  "git_init_call = \<lparr>call_id = ''call_2'', fn_name = ''git_init'', fn_arguments = ''{}''\<rparr>"


section \<open>Snippet editor\<close>

subsection \<open>Counting and replacing\<close>







subsection \<open>Writing a file\<close>




subsection \<open>Applying an edit\<close>






section \<open>Truncation of the conversation history\<close>

lemma important_system_subset: "set (important_system S) \<subseteq> set S"
proof (cases "length S > 1")
  case True
  then obtain a S' where S: "S = a # S'" by (cases S) auto
  have "set (drop (length (filter mentions_added_file S') - 3) (filter mentions_added_file S'))
          \<subseteq> set S'"
    using set_drop_subset[of _ "filter mentions_added_file S'"] by fastforce
  then show ?thesis using True by (auto simp: important_system_def S Let_def)
next
  case False
  then show ?thesis by (simp add: important_system_def)
qed

lemma important_system_idem: "important_system (important_system S) = important_system S"
proof (cases "length S > 1")
  case True
  let ?fc = "filter mentions_added_file (tl S)"
  let ?d = "drop (length ?fc - 3) ?fc"
  have IS: "important_system S = hd S # ?d"
    using True by (simp add: important_system_def Let_def)
  have f: "filter mentions_added_file ?d = ?d"
    by (rule filter_True) (auto dest: in_set_dropD)
  have l: "length ?d - 3 = 0" by simp
  show ?thesis
  proof (cases "length (hd S # ?d) > 1")
    case True
    then have "important_system (hd S # ?d) = hd S # ?d"
      unfolding important_system_def Let_def by (simp only: True if_True list.sel f l drop_0)
    then show ?thesis by (simp add: IS)
  next
    case False
    then show ?thesis by (simp add: IS important_system_def)
  qed
next
  case False
  then show ?thesis by (simp add: important_system_def)
qed

lemma keep_loop_zero: "keep_loop ms 0 k m = k"
  by simp

text \<open>A list of system messages that is longer than the budget is returned as it is
  once the selection of important system messages has been made.\<close>

lemma smart_truncate_history_system_only:
  assumes "\<forall>x\<in>set S. role x = System" and "important_system S = S"
    and "max_messages < int (length S)"
  shows "smart_truncate_history S max_messages = S"
proof -
  have 1: "filter (\<lambda>msg. role msg = System) S = S"
    using assms(1) by (simp add: filter_True)
  have 2: "filter (\<lambda>msg. role msg \<noteq> System) S = []"
    using assms(1) by (simp add: filter_empty_conv)
  show ?thesis
    using assms(2,3) unfolding smart_truncate_history_def Let_def 1 2
    by (simp del: keep_loop.simps add: keep_loop_zero)
qed

lemma smart_truncate_history_within:
  "int (length h) \<le> max_messages \<Longrightarrow> smart_truncate_history h max_messages = h"
  by (simp add: smart_truncate_history_def)

text \<open>
  C5. A history within the budget is returned unchanged, and truncating twice with the
  same budget gives what truncating once gives, for every history and every budget
  (negative ones included). The result of one truncation is either within the budget, or
  it consists of the selected system messages alone, which a second truncation selects
  again.
\<close>

theorem smart_truncate_history_idempotent:
  "(int (length h) \<le> max_messages \<longrightarrow> smart_truncate_history h max_messages = h)
   \<and> smart_truncate_history (smart_truncate_history h max_messages) max_messages
       = smart_truncate_history h max_messages"
proof (cases "int (length h) \<le> max_messages")
  case True
  then show ?thesis by (simp add: smart_truncate_history_within)
next
  case False
  let ?S = "important_system (filter (\<lambda>msg. role msg = System) h)"
  let ?O = "filter (\<lambda>msg. role msg \<noteq> System) h"
  let ?K = "keep_loop ?O (length ?O) [] (max_messages - int (length ?S))"
  let ?r = "smart_truncate_history h max_messages"
  have r: "?r = (if int (length (?S @ ?K)) > max_messages
                 then ?S @ drop (nat (int (length (?S @ ?K)) - max_messages)) ?K
                 else ?S @ ?K)"
    using False unfolding smart_truncate_history_def Let_def by (simp del: keep_loop.simps)
  have sysS: "\<forall>x\<in>set ?S. role x = System"
    using important_system_subset[of "filter (\<lambda>msg. role msg = System) h"] by auto
  have "?r = ?S \<and> max_messages < int (length ?S) \<or> int (length ?r) \<le> max_messages"
  proof (cases "int (length (?S @ ?K)) > max_messages")
    case long: True
    show ?thesis
    proof (cases "max_messages < int (length ?S)")
      case True
      then have "drop (nat (int (length (?S @ ?K)) - max_messages)) ?K = []"
        by (simp del: keep_loop.simps)
      then show ?thesis using r long True by (simp del: keep_loop.simps)
    next
      case False
      then have "int (length (?S @ drop (nat (int (length (?S @ ?K)) - max_messages)) ?K))
                  \<le> max_messages"
        using long by (simp del: keep_loop.simps)
      then show ?thesis using r long by (simp del: keep_loop.simps)
    qed
  next
    case False
    then show ?thesis using r by (simp del: keep_loop.simps)
  qed
  then have "smart_truncate_history ?r max_messages = ?r"
  proof
    assume a: "?r = ?S \<and> max_messages < int (length ?S)"
    have "smart_truncate_history ?S max_messages = ?S"
      using smart_truncate_history_system_only[OF sysS important_system_idem] a by blast
    then show ?thesis using a by simp
  next
    assume "int (length ?r) \<le> max_messages"
    then show ?thesis by (rule smart_truncate_history_within)
  qed
  then show ?thesis using False by simp
qed

theorem smart_truncate_history_idempotent_witness:
  "int (length [persona, user_says, assistant_says]) \<le> 5
   \<and> smart_truncate_history [persona, user_says, assistant_says] 5
       = [persona, user_says, assistant_says]
   \<and> smart_truncate_history (smart_truncate_history
         [persona, user_says, assistant_calls, tool_result, user_says, assistant_says] 4) 4
       = smart_truncate_history
           [persona, user_says, assistant_calls, tool_result, user_says, assistant_says] 4"
  using smart_truncate_history_idempotent[of "[persona, user_says, assistant_says]" 5]
        smart_truncate_history_idempotent[of
          "[persona, user_says, assistant_calls, tool_result, user_says, assistant_says]" 4]
  by simp

text \<open>
  C4 does not hold of the code. After 25 turns the history has 52 entries and every tool
  result is linked to its assistant entry. With the budget of 50 that the main loop uses,
  the backward walk keeps the last 48 entries, meets the tool result of the first turn and
  pulls in the assistant entry that made the call (50 entries, one above the quota of 49);
  the final length check then drops the oldest kept entry, which is that assistant entry.
  The truncated history starts with the persona prompt followed by a tool result whose
  call is gone.
\<close>

theorem smart_truncate_history_orphans_tool_result:
  "length history_25_turns = 52
   \<and> tool_results_linked history_25_turns
   \<and> smart_truncate_history history_25_turns 50
       = persona # tool_result # concat (replicate 24 [user_says, assistant_says])
   \<and> \<not> tool_results_linked (smart_truncate_history history_25_turns 50)"
  by code_simp

section \<open>Accumulation of streamed tool-call fragments\<close>

lemma length_accumulate_chunk:
  "length (accumulate_chunk acc c) = max (length acc) (Suc (index c))"
  by (auto simp: accumulate_chunk_def Let_def)

lemma get_accumulate_chunk:
  "get_call (accumulate_chunk acc c) i
     = (if i = index c then merge_chunk (get_call acc i) c else get_call acc i)"
  by (auto simp: accumulate_chunk_def Let_def get_call_def nth_append nth_list_update)

lemma get_foldl_accumulate:
  "get_call (foldl accumulate_chunk acc cs) i
     = foldl merge_chunk (get_call acc i) (filter (\<lambda>c. index c = i) cs)"
  by (induction cs arbitrary: acc) (simp_all add: get_accumulate_chunk)

lemma length_foldl_accumulate_ge: "length acc \<le> length (foldl accumulate_chunk acc cs)"
proof (induction cs arbitrary: acc)
  case Nil
  then show ?case by simp
next
  case (Cons c cs)
  have "length acc \<le> length (accumulate_chunk acc c)"
    by (simp add: length_accumulate_chunk)
  also have "\<dots> \<le> length (foldl accumulate_chunk (accumulate_chunk acc c) cs)"
    by (rule Cons.IH)
  finally show ?case by simp
qed

lemma index_less_length_foldl:
  "c \<in> set cs \<Longrightarrow> index c < length (foldl accumulate_chunk acc cs)"
proof (induction cs arbitrary: acc)
  case Nil
  then show ?case by simp
next
  case (Cons d cs)
  show ?case
  proof (cases "c = d")
    case True
    have "Suc (index d) \<le> length (accumulate_chunk acc d)"
      by (simp add: length_accumulate_chunk)
    also have "\<dots> \<le> length (foldl accumulate_chunk (accumulate_chunk acc d) cs)"
      by (rule length_foldl_accumulate_ge)
    finally show ?thesis using True by simp
  next
    case False
    with Cons.prems have "c \<in> set cs" by simp
    then show ?thesis using Cons.IH by simp
  qed
qed

lemma length_foldl_accumulate_le:
  "length acc \<le> n \<Longrightarrow> \<forall>c \<in> set cs. index c < n \<Longrightarrow> length (foldl accumulate_chunk acc cs) \<le> n"
  by (induction cs arbitrary: acc) (simp_all add: length_accumulate_chunk)

lemma call_id_merge: "call_id (merge_chunk t c) = (if id_part c \<noteq> [] then id_part c else call_id t)"
  by (auto simp: merge_chunk_def Let_def truthy_def id_part_def split: option.splits)

lemma fn_name_merge: "fn_name (merge_chunk t c) = (if name_part c \<noteq> [] then name_part c else fn_name t)"
  by (auto simp: merge_chunk_def Let_def truthy_def name_part_def split: option.splits)

lemma fn_arguments_merge: "fn_arguments (merge_chunk t c) = fn_arguments t @ arguments_part c"
  by (auto simp: merge_chunk_def Let_def truthy_def arguments_part_def split: option.splits)

lemma call_id_foldl_merge:
  "\<forall>p \<in> set (map id_part F). p = [] \<or> p = x \<Longrightarrow>
   call_id (foldl merge_chunk t F) = (if x \<noteq> [] \<and> x \<in> set (map id_part F) then x else call_id t)"
  by (induction F arbitrary: t) (auto simp: call_id_merge)

lemma fn_name_foldl_merge:
  "\<forall>p \<in> set (map name_part F). p = [] \<or> p = x \<Longrightarrow>
   fn_name (foldl merge_chunk t F) = (if x \<noteq> [] \<and> x \<in> set (map name_part F) then x else fn_name t)"
  by (induction F arbitrary: t) (auto simp: fn_name_merge)

lemma fn_arguments_foldl_merge:
  "fn_arguments (foldl merge_chunk t F) = fn_arguments t @ concat (map arguments_part F)"
  by (induction F arbitrary: t) (simp_all add: fn_arguments_merge)

lemma foldl_merge_placeholder:
  assumes "carries_whole (call_id call) (map id_part F)"
    and "carries_whole (fn_name call) (map name_part F)"
    and "concat (map arguments_part F) = fn_arguments call"
  shows "foldl merge_chunk placeholder F = call"
proof -
  have 1: "call_id (foldl merge_chunk placeholder F) = call_id call"
    using assms(1) call_id_foldl_merge[of F "call_id call" placeholder]
    by (auto simp: carries_whole_def placeholder_def)
  have 2: "fn_name (foldl merge_chunk placeholder F) = fn_name call"
    using assms(2) fn_name_foldl_merge[of F "fn_name call" placeholder]
    by (auto simp: carries_whole_def placeholder_def)
  have 3: "fn_arguments (foldl merge_chunk placeholder F) = fn_arguments call"
    using assms(3) by (simp add: fn_arguments_foldl_merge placeholder_def)
  show ?thesis using 1 2 3 by (simp add: tool_call.equality)
qed

lemma accumulate_fragmentation:
  assumes "fragmentation calls chunks"
  shows "accumulate_tool_calls chunks = calls"
proof (rule nth_equalityI)
  let ?r = "foldl accumulate_chunk [] chunks"
  have le: "length ?r \<le> length calls"
    using assms by (intro length_foldl_accumulate_le) (auto simp: fragmentation_def)
  have ge: "length calls \<le> length ?r"
  proof (cases "length calls")
    case 0
    then show ?thesis by simp
  next
    case (Suc n)
    then have "filter (\<lambda>c. index c = n) chunks \<noteq> []"
      using assms by (auto simp: fragmentation_def Let_def)
    then obtain c where "c \<in> set chunks" "index c = n"
      by (auto simp: filter_empty_conv)
    then show ?thesis using index_less_length_foldl[of c chunks "[]"] Suc by simp
  qed
  show len: "length (accumulate_tool_calls chunks) = length calls"
    using le ge by (simp add: accumulate_tool_calls_def)
  fix i assume "i < length (accumulate_tool_calls chunks)"
  then have i: "i < length calls" using len by simp
  let ?own = "filter (\<lambda>c. index c = i) chunks"
  have "get_call ?r i = foldl merge_chunk (get_call [] i) ?own"
    by (rule get_foldl_accumulate)
  also have "get_call [] i = placeholder"
    by (simp add: get_call_def)
  also have "foldl merge_chunk placeholder ?own = calls ! i"
    using assms i by (intro foldl_merge_placeholder) (auto simp: fragmentation_def Let_def)
  finally show "accumulate_tool_calls chunks ! i = calls ! i"
    using i len by (simp add: get_call_def accumulate_tool_calls_def)
qed

lemma accumulate_whole_chunk:
  "accumulate_chunk calls (whole_chunk (length calls) call) = calls @ [call]"
  by (simp add: accumulate_chunk_def whole_chunk_def merge_chunk_def Let_def truthy_def
      placeholder_def)

lemma accumulate_unsplit: "accumulate_tool_calls (unsplit calls) = calls"
proof (induction calls rule: rev_induct)
  case Nil
  then show ?case by (simp add: accumulate_tool_calls_def unsplit_def)
next
  case (snoc call calls)
  have "unsplit (calls @ [call]) = unsplit calls @ [whole_chunk (length calls) call]"
    by (simp add: unsplit_def nth_append)
  then show ?case
    using snoc by (simp add: accumulate_tool_calls_def accumulate_whole_chunk)
qed

text \<open>
  C3. For every list of calls and every stream that is a fragmentation of it, whatever
  the interleaving of the calls' fragments and however the arguments texts are cut, the
  accumulation loop ends with the same list as when each call is delivered as one
  unsplit fragment, and that list is the list of the calls: ids and names are taken whole,
  arguments pieces are concatenated in arrival order.
\<close>

theorem accumulate_tool_calls_split_invariant:
  assumes "fragmentation calls chunks"
  shows "accumulate_tool_calls chunks = accumulate_tool_calls (unsplit calls)
       \<and> accumulate_tool_calls chunks = calls"
  using accumulate_fragmentation[OF assms] accumulate_unsplit by simp

theorem accumulate_tool_calls_split_invariant_witness:
  "fragmentation two_calls interleaved_stream
   \<and> accumulate_tool_calls interleaved_stream = accumulate_tool_calls (unsplit two_calls)
   \<and> accumulate_tool_calls interleaved_stream = two_calls"
proof -
  have f: "fragmentation two_calls interleaved_stream"
    by code_simp
  show ?thesis
    using f accumulate_tool_calls_split_invariant[OF f] by blast
qed


section \<open>File contexts\<close>

lemma py_find_None_iff: "py_find s sub = None \<longleftrightarrow> \<not> sublist sub s"
  by (induction s) (auto simp: sublist_Cons_right)

lemma py_in_iff_sublist: "py_in sub s \<longleftrightarrow> sublist sub s"
  by (simp add: py_in_def py_find_None_iff)

lemma marker_mentions: "py_in (marker_of p) s \<Longrightarrow> py_in ''User added file'' s"
proof -
  assume "py_in (marker_of p) s"
  then have 1: "sublist (marker_of p) s" by (simp add: py_in_iff_sublist)
  have "prefix ''User added file'' (marker_of p)"
    by (simp add: marker_of_def)
  then have "sublist ''User added file'' (marker_of p)" by (rule prefix_imp_sublist)
  with 1 have "sublist ''User added file'' s" by (rule sublist_order.order.trans[rotated])
  then show ?thesis by (simp add: py_in_iff_sublist)
qed

lemma context_of_contains_marker:
  assumes "is_context_of q msg" and "prefix (marker_of p) (marker_of q @ content_separator)"
  shows "py_in (marker_of p) (content msg)"
proof -
  from assms have "prefix (marker_of p) (content msg)"
    by (auto simp: is_context_of_def)
  then show ?thesis by (simp add: py_in_iff_sublist prefix_imp_sublist)
qed

lemma quote_not_in_separator: "CHR 0x27 \<notin> set content_separator"
  by (simp add: content_separator_def)

lemma new_entry_context_of:
  assumes "is_context_of q (file_context_entry p text)"
    and "\<not> sublist (CHR 0x27 # content_separator) p"
  shows "prefix (marker_of p) (marker_of q @ content_separator)"
proof -
  let ?Q = "CHR 0x27 :: char"
  let ?D = "content_separator"
  from assms(1) have "prefix (q @ [?Q] @ ?D) (p @ [?Q] @ ?D @ text)"
    by (simp add: is_context_of_def file_context_entry_def marker_of_def)
  then have pq: "prefix (q @ (?Q # ?D)) (p @ (?Q # ?D @ text))"
    by simp
  then have "prefix q (p @ (?Q # ?D @ text))"
    using append_prefixD by blast
  then have "prefix q p \<or> (\<exists>r. q = p @ r \<and> prefix r (?Q # ?D @ text))"
    by (auto simp: prefix_append)
  then show ?thesis
  proof
    assume "prefix q p"
    then obtain r where r: "p = q @ r" by (auto simp: prefix_def)
    show ?thesis
    proof (cases r)
      case Nil
      then show ?thesis using r by (simp add: marker_of_def)
    next
      case (Cons a r')
      from pq r have "prefix (?Q # ?D) (r @ (?Q # ?D @ text))" by simp
      then have "prefix (?Q # ?D) r \<or> (\<exists>us. ?Q # ?D = r @ us \<and> prefix us (?Q # ?D @ text))"
        by (simp only: prefix_append)
      then have False
      proof
        assume "prefix (?Q # ?D) r"
        then have "sublist (?Q # ?D) r" by (rule prefix_imp_sublist)
        then have "sublist (?Q # ?D) (q @ r)" by (auto simp: sublist_append)
        with assms(2) r show False by simp
      next
        assume "\<exists>us. ?Q # ?D = r @ us \<and> prefix us (?Q # ?D @ text)"
        then obtain us where us: "?Q # ?D = r @ us" "prefix us (?Q # ?D @ text)" by blast
        show False
        proof (cases us)
          case Nil
          with us(1) have "sublist (?Q # ?D) (q @ r)" by (auto simp: sublist_append)
          with assms(2) r show False by simp
        next
          case c2: (Cons b us')
          with us(2) have "b = ?Q" by simp
          with us(1) Cons c2 have "?D = r' @ ?Q # us'" by auto
          then have "?Q \<in> set ?D" by (metis in_set_conv_decomp)
          then show False using quote_not_in_separator by simp
        qed
      qed
      then show ?thesis ..
    qed
  next
    assume "\<exists>r. q = p @ r \<and> prefix r (?Q # ?D @ text)"
    then obtain r where r: "q = p @ r" "prefix r (?Q # ?D @ text)" by blast
    show ?thesis
    proof (cases r)
      case Nil
      then show ?thesis using r by (simp add: marker_of_def)
    next
      case (Cons a r')
      with r(2) have "a = ?Q" by simp
      then show ?thesis using r(1) Cons by (simp add: marker_of_def)
    qed
  qed
qed

lemma count_evict_oldest:
  "length (filter is_file_context (evict_oldest xs r l))
     = length (filter is_file_context xs) - nat (l - int r)"
proof (induction xs arbitrary: r)
  case Nil
  then show ?case by simp
next
  case (Cons x xs)
  show ?case
  proof (cases "is_file_context x \<and> int r < l")
    case True
    then have "evict_oldest (x # xs) r l = evict_oldest xs (Suc r) l"
      by (simp add: is_file_context_def)
    moreover have "Suc (length (filter is_file_context xs)) - nat (l - int r)
                 = length (filter is_file_context xs) - nat (l - int (Suc r))"
      using True by (simp add: nat_diff_distrib') linarith
    ultimately show ?thesis using True Cons.IH[of "Suc r"] by simp
  next
    case False
    then have e: "evict_oldest (x # xs) r l = x # evict_oldest xs r l"
      by (auto simp: is_file_context_def)
    show ?thesis
    proof (cases "is_file_context x")
      case True
      with False have "nat (l - int r) = 0" by simp
      then show ?thesis using e Cons.IH[of r] True by simp
    next
      case nf: False
      then show ?thesis using e Cons.IH[of r] by simp
    qed
  qed
qed

lemma filter_evict_oldest_le:
  "length (filter P (evict_oldest xs r l)) \<le> length (filter P xs)"
  by (induction xs arbitrary: r) (auto simp: le_SucI)

lemma hd_evict_oldest:
  "xs \<noteq> [] \<Longrightarrow> \<not> is_file_context (hd xs) \<Longrightarrow>
   evict_oldest xs r l \<noteq> [] \<and> hd (evict_oldest xs r l) = hd xs"
  by (cases xs) (auto simp: is_file_context_def)

lemma evict_oldest_subset: "set (evict_oldest xs r l) \<subseteq> set xs"
  by (induction xs arbitrary: r) auto


lemma add_file_context_smartly_unfold:
  "add_file_context_smartly h p text m =
     (let h1 = filter (\<lambda>msg. \<not> (role msg = System \<and> py_in (marker_of p) (content msg))) h;
          k = length (filter is_file_context h1)
      in (if int k \<ge> m then evict_oldest h1 0 (int k - m + 1) else h1)
           @ [file_context_entry p text])"
  by (simp add: add_file_context_smartly_def Let_def is_file_context_def)

lemma new_entry_is_file_context: "is_file_context (file_context_entry p text)"
proof -
  have "prefix ''User added file'' (marker_of p @ content_separator @ text)"
    by (simp add: marker_of_def)
  then have "sublist ''User added file'' (marker_of p @ content_separator @ text)"
    by (rule prefix_imp_sublist)
  then show ?thesis
    by (simp add: is_file_context_def mentions_added_file_def file_context_entry_def
        py_in_iff_sublist)
qed

lemma find_filter_keeps:
  "find P xs = Some s \<Longrightarrow> Q s \<Longrightarrow> find P (filter Q xs) = Some s"
  by (induction xs) (auto split: if_splits)

lemma find_evict_oldest:
  "find (\<lambda>m. role m = System) xs = Some s \<Longrightarrow> \<not> is_file_context s \<Longrightarrow>
   find (\<lambda>m. role m = System) (evict_oldest xs r l) = Some s"
  by (induction xs arbitrary: r) (auto simp: is_file_context_def split: if_splits)

lemma find_append_Some: "find P xs = Some s \<Longrightarrow> find P (xs @ ys) = Some s"
  by (induction xs) (auto split: if_splits)

text \<open>
  C10. Let \<open>max_context_files\<close> be at least 1 (the default is 5) and let the first
  system entry of the history carry no file marker (the persona prompt). After
  \<open>add_file_context_smartly\<close>:
  \<^item> exactly one entry is the file context of the added path, the new one;
  \<^item> for no path are there more file contexts among the other entries than before;
  \<^item> hence, when no path had more than one file context before, none has after the call,
    provided the added path does not itself contain a quote followed by the separator
    text (so that the new entry cannot be read as the context of a shorter path);
  \<^item> at most \<open>max_context_files\<close> file-context entries remain in total;
  \<^item> the first system entry is still the same entry;
  \<^item> the last entry is the new file context.
\<close>

theorem add_file_context_smartly_invariant:
  assumes max: "1 \<le> max_context_files"
    and first: "find (\<lambda>m. role m = System) h = Some prompt" "\<not> mentions_added_file prompt"
  shows "filter (is_context_of file_path)
           (add_file_context_smartly h file_path text max_context_files)
           = [file_context_entry file_path text]
       \<and> (\<forall>q. length (filter (is_context_of q)
                  (butlast (add_file_context_smartly h file_path text max_context_files)))
               \<le> length (filter (is_context_of q) h))
       \<and> (\<not> sublist (CHR 0x27 # content_separator) file_path
            \<and> (\<forall>q. length (filter (is_context_of q) h) \<le> 1)
          \<longrightarrow> (\<forall>q. length (filter (is_context_of q)
                  (add_file_context_smartly h file_path text max_context_files)) \<le> 1))
       \<and> int (length (filter is_file_context
                  (add_file_context_smartly h file_path text max_context_files)))
           \<le> max_context_files
       \<and> find (\<lambda>m. role m = System)
             (add_file_context_smartly h file_path text max_context_files) = Some prompt
       \<and> last (add_file_context_smartly h file_path text max_context_files)
           = file_context_entry file_path text"
proof -
  let ?new = "file_context_entry file_path text"
  define h1 where
    "h1 = filter (\<lambda>msg. \<not> (role msg = System \<and> py_in (marker_of file_path) (content msg))) h"
  define k where "k = length (filter is_file_context h1)"
  define h2 where
    "h2 = (if int k \<ge> max_context_files
           then evict_oldest h1 0 (int k - max_context_files + 1) else h1)"
  have r: "add_file_context_smartly h file_path text max_context_files = h2 @ [?new]"
    by (simp add: add_file_context_smartly_unfold Let_def h1_def k_def h2_def)
  have sub2: "set h2 \<subseteq> set h1"
    by (simp add: h2_def evict_oldest_subset)
  have le2: "length (filter P h2) \<le> length (filter P h)" for P
  proof -
    have "length (filter P h2) \<le> length (filter P h1)"
      by (simp add: h2_def filter_evict_oldest_le)
    also have "\<dots> \<le> length (filter P h)"
      unfolding h1_def by (induction h) auto
    finally show ?thesis .
  qed
  have none: "filter (is_context_of q) h2 = []"
    if pre: "prefix (marker_of file_path) (marker_of q @ content_separator)" for q
  proof -
    have "\<not> is_context_of q x" if "x \<in> set h1" for x
    proof
      assume c: "is_context_of q x"
      then have "py_in (marker_of file_path) (content x)"
        using context_of_contains_marker[OF c pre] by simp
      moreover have "role x = System" using c by (simp add: is_context_of_def)
      ultimately show False using that by (simp add: h1_def)
    qed
    then show ?thesis using sub2 by (auto simp: filter_empty_conv)
  qed
  have new_own: "is_context_of file_path ?new"
    by (simp add: is_context_of_def file_context_entry_def)
  have one: "filter (is_context_of file_path) (h2 @ [?new]) = [?new]"
    using none[of file_path] new_own by simp
  have others: "length (filter (is_context_of q) (butlast (h2 @ [?new])))
                  \<le> length (filter (is_context_of q) h)" for q
    using le2[of "is_context_of q"] by simp
  have uniq: "length (filter (is_context_of q) (h2 @ [?new])) \<le> 1"
    if sep: "\<not> sublist (CHR 0x27 # content_separator) file_path"
      and inv: "\<forall>q. length (filter (is_context_of q) h) \<le> 1" for q
  proof (cases "is_context_of q ?new")
    case True
    have "filter (is_context_of q) h2 = []"
      using none new_entry_context_of[OF True sep] by simp
    then show ?thesis by simp
  next
    case False
    have "length (filter (is_context_of q) h2) \<le> 1"
      using le2[of "is_context_of q"] inv by (meson le_trans)
    then show ?thesis using False by simp
  qed
  have cnt: "int (length (filter is_file_context (h2 @ [?new]))) \<le> max_context_files"
  proof (cases "int k \<ge> max_context_files")
    case True
    then have "length (filter is_file_context h2) = k - nat (int k - max_context_files + 1)"
      using count_evict_oldest[of h1 0 "int k - max_context_files + 1"]
      by (simp add: h2_def k_def)
    then show ?thesis using True max new_entry_is_file_context by simp
  next
    case False
    then show ?thesis using new_entry_is_file_context by (simp add: h2_def k_def)
  qed
  have nfc: "\<not> is_file_context prompt"
    using first(2) by (simp add: is_file_context_def)
  have "\<not> (role prompt = System \<and> py_in (marker_of file_path) (content prompt))"
    using first(2) marker_mentions[of file_path "content prompt"]
    by (auto simp: mentions_added_file_def)
  then have f1: "find (\<lambda>m. role m = System) h1 = Some prompt"
    unfolding h1_def using first(1) by (intro find_filter_keeps) simp_all
  have f2: "find (\<lambda>m. role m = System) h2 = Some prompt"
    using f1 nfc by (simp add: h2_def find_evict_oldest)
  have hd3: "find (\<lambda>m. role m = System) (h2 @ [?new]) = Some prompt"
    using f2 by (rule find_append_Some)
  show ?thesis
    unfolding r using one others uniq cnt hd3 by simp
qed

theorem add_file_context_smartly_invariant_witness:
  "add_file_context_smartly history_with_context ''/w/a.py'' ''new text'' 5
     = [persona, user_says, file_context_entry ''/w/a.py'' ''new text'']
   \<and> (\<forall>q. length (filter (is_context_of q)
          (add_file_context_smartly history_with_context ''/w/a.py'' ''new text'' 5)) \<le> 1)
   \<and> int (length (filter is_file_context
          (add_file_context_smartly history_with_context ''/w/a.py'' ''new text'' 5))) \<le> 5
   \<and> find (\<lambda>m. role m = System)
          (add_file_context_smartly history_with_context ''/w/a.py'' ''new text'' 5)
        = Some persona"
proof -
  have 1: "(1::int) \<le> 5" by simp
  have 2: "find (\<lambda>m. role m = System) history_with_context = Some persona"
    by (simp add: history_with_context_def persona_def)
  have 3: "\<not> mentions_added_file persona"
    by code_simp
  have 4: "\<not> sublist (CHR 0x27 # content_separator) ''/w/a.py''"
    by code_simp
  have 5: "\<forall>q. length (filter (is_context_of q) history_with_context) \<le> 1"
    by (simp add: history_with_context_def is_context_of_def persona_def user_says_def
        marker_of_def)
  have 6: "add_file_context_smartly history_with_context ''/w/a.py'' ''new text'' 5
     = [persona, user_says, file_context_entry ''/w/a.py'' ''new text'']"
    by code_simp
  note t = add_file_context_smartly_invariant[OF 1 2 3, of "''/w/a.py''" "''new text''"]
  from t have a: "\<forall>q. length (filter (is_context_of q)
          (add_file_context_smartly history_with_context ''/w/a.py'' ''new text'' 5)) \<le> 1"
    using 4 5 by blast
  from t have b: "int (length (filter is_file_context
          (add_file_context_smartly history_with_context ''/w/a.py'' ''new text'' 5))) \<le> 5"
    by blast
  from t have c: "find (\<lambda>m. role m = System)
          (add_file_context_smartly history_with_context ''/w/a.py'' ''new text'' 5)
        = Some persona"
    by blast
  show ?thesis using 6 a b c by blast
qed

section \<open>Git handlers\<close>

text \<open>
  C9. When git is enabled, the message is not empty and the staged-changes check
  \<open>git diff --staged --quiet\<close> exits with code 0 (nothing is staged), \<open>llm_git_commit\<close>
  returns the text "No changes staged. Use git_add first." and the world it was given with
  that one check added to the log of subprocess invocations: \<open>git_context\<close>, the files and
  the history are unchanged and \<open>git commit\<close> is not run.
\<close>

theorem llm_git_commit_nothing_staged:
  assumes "enabled (git w)" and "message \<noteq> []"
    and "run e w [''git'', ''diff'', ''--staged'', ''--quiet''] = Exited 0 out err"
  shows "llm_git_commit e message w
           = (''No changes staged. Use git_add first.'',
              w\<lparr>procs := procs w @ [[''git'', ''diff'', ''--staged'', ''--quiet'']]\<rparr>)"
  using assms by (simp add: llm_git_commit_def subprocess_run_def)

theorem llm_git_commit_nothing_staged_witness:
  "llm_git_commit env_git_ok ''msg'' (world_one_file ''/w/a.txt'' ''abc'')
     = (''No changes staged. Use git_add first.'',
        (world_one_file ''/w/a.txt'' ''abc'')
          \<lparr>procs := [[''git'', ''diff'', ''--staged'', ''--quiet'']]\<rparr>)"
proof -
  let ?w = "world_one_file ''/w/a.txt'' ''abc''"
  have 1: "enabled (git ?w)" by (simp add: world_one_file_def)
  have 2: "''msg'' \<noteq> []" by simp
  have 3: "run env_git_ok ?w [''git'', ''diff'', ''--staged'', ''--quiet''] = Exited 0 [] []"
    by (simp add: env_git_ok_def)
  have 4: "procs ?w = []" by (simp add: world_one_file_def)
  show ?thesis using llm_git_commit_nothing_staged[OF 1 2 3] 4 by simp
qed

section \<open>Dispatch\<close>






section \<open>Validation and the end of a turn\<close>











section \<open>The git switch over a session\<close>

lemma git_stage_file: "git (snd (stage_file e p w)) = git w"
  by (simp add: stage_file_def subprocess_run_def split: option.splits proc_result.splits)

lemma git_create_file: "git (snd (create_file e p t w)) = git w"
  by (simp add: create_file_def Let_def git_stage_file)

lemma git_apply_diff_edit: "git (snd (apply_diff_edit e p a b w)) = git w"
proof -
  have "git (snd (case create_file e p' t w of
                    (Inl FileNotFoundError, w') \<Rightarrow> (Inr File_not_found, w')
                  | (Inl (ValueError v), w') \<Rightarrow> (Inr (No_changes v), w')
                  | (Inl x, w') \<Rightarrow> (Inl x, w')
                  | (Inr u, w') \<Rightarrow> (Inr Applied, w'))) = git w" for p' t
    using git_create_file[of e p' t w]
    by (auto split: prod.splits sum.splits py_exn.splits)
  then show ?thesis
    by (simp add: apply_diff_edit_def Let_def read_local_file_def
        split: option.splits)
qed

lemma git_ensure_file_in_context: "git (snd (ensure_file_in_context e fp w)) = git w"
  by (simp add: ensure_file_in_context_def Let_def split: sum.splits)

lemma git_create_file_eq: "create_file e p t w = (r, w') \<Longrightarrow> git w' = git w"
  using git_create_file[of e p t w] by simp

lemma git_create_one: "git (snd (create_one e f w)) = git w"
  by (auto simp: create_one_def split: sum.splits prod.splits dest: git_create_file_eq)

lemma git_create_all: "git (snd (create_all e fs w)) = git w"
proof (induction fs arbitrary: w)
  case Nil
  then show ?case by simp
next
  case (Cons f fs)
  obtain r w1 where c: "create_one e f w = (r, w1)" by (cases "create_one e f w")
  then have g1: "git w1 = git w" using git_create_one[of e f w] by simp
  obtain r2 w2 where a: "create_all e fs w1 = (r2, w2)" by (cases "create_all e fs w1")
  then have g2: "git w2 = git w" using Cons.IH[of w1] g1 by simp
  show ?case using c a g1 g2
    by (auto split: sum.splits prod.splits)
qed


lemma git_apply_diff_edit_eq: "apply_diff_edit e p a b w = (r, w') \<Longrightarrow> git w' = git w"
  using git_apply_diff_edit[of e p a b w] by simp

lemma git_ensure_eq: "ensure_file_in_context e fp w = (r, w') \<Longrightarrow> git w' = git w"
  using git_ensure_file_in_context[of e fp w] by simp

lemma git_create_all_eq: "create_all e fs w = (r, w') \<Longrightarrow> git w' = git w"
  using git_create_all[of e fs w] by simp

lemma git_edit_file_tool: "git (snd (edit_file_tool e args w)) = git w"
proof (cases "getitem args ''file_path''")
  case (Inl x)
  then show ?thesis by (simp add: edit_file_tool_def)
next
  case (Inr fv)
  show ?thesis
  proof (cases "as_str fv")
    case (Inl x)
    then show ?thesis using Inr by (simp add: edit_file_tool_def)
  next
    case fp: (Inr fp)
    obtain ok w1 where en: "ensure_file_in_context e fp w = (ok, w1)"
      by (cases "ensure_file_in_context e fp w")
    then have g1: "git w1 = git w" by (rule git_ensure_eq)
    have "git w2 = git w" if "apply_diff_edit e fp a b w1 = (r, w2)" for a b r w2
      using git_apply_diff_edit_eq[OF that] g1 by simp
    then show ?thesis
      using Inr fp en g1
      by (auto simp: edit_file_tool_def Let_def split: sum.splits prod.splits bool.splits)
  qed
qed

lemma disabled_llm_git_add: "\<not> enabled (git w) \<Longrightarrow> snd (llm_git_add e fps w) = w"
  by (simp add: llm_git_add_def)

lemma disabled_llm_git_commit: "\<not> enabled (git w) \<Longrightarrow> snd (llm_git_commit e m w) = w"
  by (simp add: llm_git_commit_def)

lemma disabled_llm_git_create_branch:
  "\<not> enabled (git w) \<Longrightarrow> snd (llm_git_create_branch e b w) = w"
  by (simp add: llm_git_create_branch_def)

lemma disabled_llm_git_status: "\<not> enabled (git w) \<Longrightarrow> snd (llm_git_status e w) = w"
  by (simp add: llm_git_status_def)

lemma execute_body_keeps_disabled:
  assumes "\<not> enabled (git w)" and "fn_name tc \<noteq> ''git_init''"
  shows "\<not> enabled (git (snd (execute_body e tc w)))"
proof (cases "json_loads e (fn_arguments tc)")
  case None
  then show ?thesis using assms by (simp add: execute_body_def)
next
  case (Some args)
  have cf: "\<not> enabled (git w')" if "create_file e p t w = (r, w')" for p t r w'
    using git_create_file_eq[OF that] assms(1) by simp
  have ca: "\<not> enabled (git w')" if "create_all e fs w = (r, w')" for fs r w'
    using git_create_all_eq[OF that] assms(1) by simp
  have ed: "\<not> enabled (git (snd (edit_file_tool e args w)))"
    using git_edit_file_tool[of e args w] assms(1) by simp
  have ga: "snd (llm_git_add e fps w) = w" for fps
    using assms(1) by (rule disabled_llm_git_add)
  have gc: "snd (llm_git_commit e m w) = w" for m
    using assms(1) by (rule disabled_llm_git_commit)
  have gb: "snd (llm_git_create_branch e b w) = w" for b
    using assms(1) by (rule disabled_llm_git_create_branch)
  have gs: "snd (llm_git_status e w) = w"
    using assms(1) by (rule disabled_llm_git_status)
  have ga': "\<not> enabled (git w')" if "llm_git_add e fps w = (r, w')" for fps r w'
    using ga[of fps] that assms(1) by simp
  have gc': "\<not> enabled (git w')" if "llm_git_commit e m w = (r, w')" for m r w'
    using gc[of m] that assms(1) by simp
  have gb': "\<not> enabled (git w')" if "llm_git_create_branch e b w = (r, w')" for b r w'
    using gb[of b] that assms(1) by simp
  have gs': "\<not> enabled (git w')" if "llm_git_status e w = (r, w')" for r w'
    using gs that assms(1) by simp
  consider (n_rf) "fn_name tc = ''read_file''" | (n_rm) "fn_name tc = ''read_multiple_files''"
    | (n_cf) "fn_name tc = ''create_file''" | (n_cm) "fn_name tc = ''create_multiple_files''"
    | (n_ef) "fn_name tc = ''edit_file''" | (n_gi) "fn_name tc = ''git_init''"
    | (n_ga) "fn_name tc = ''git_add''" | (n_gc) "fn_name tc = ''git_commit''"
    | (n_gb) "fn_name tc = ''git_create_branch''" | (n_gs) "fn_name tc = ''git_status''"
    | (n_un) "fn_name tc \<notin> set known_functions"
    by (auto simp: known_functions_def)
  then show ?thesis
  proof cases
    case n_rf
    then show ?thesis using assms(1) Some
      by (simp add: execute_body_def Let_def split: sum.splits)
  next
    case n_rm
    then show ?thesis using assms(1) Some
      by (simp add: execute_body_def Let_def split: sum.splits)
  next
    case n_cf
    then show ?thesis using Some assms(1) cf
      by (auto simp: execute_body_def Let_def split: sum.splits prod.splits)
  next
    case n_cm
    then show ?thesis using Some assms(1) ca
      by (auto simp: execute_body_def Let_def split: sum.splits prod.splits)
  next
    case n_ef
    then show ?thesis using Some ed
      by (simp add: execute_body_def Let_def)
  next
    case n_gi
    then show ?thesis using assms(2) by simp
  next
    case n_ga
    then show ?thesis using Some assms(1) ga'
      by (auto simp: execute_body_def Let_def split: sum.splits prod.splits)
  next
    case n_gc
    then show ?thesis using Some assms(1) gc'
      by (auto simp: execute_body_def Let_def split: sum.splits prod.splits)
  next
    case n_gb
    then show ?thesis using Some assms(1) gb'
      by (auto simp: execute_body_def Let_def split: sum.splits prod.splits)
  next
    case n_gs
    then show ?thesis using Some assms(1) gs'
      by (auto simp: execute_body_def Let_def split: sum.splits prod.splits)
  next
    case n_un
    then show ?thesis using Some assms(1)
      by (simp add: execute_body_def Let_def known_functions_def)
  qed
qed

lemma execute_keeps_disabled:
  assumes "\<not> enabled (git w)" and "fn_name tc \<noteq> ''git_init''"
  shows "\<not> enabled (git (snd (execute_function_call_dict e tc w)))"
proof -
  have "snd (execute_function_call_dict e tc w) = snd (execute_body e tc w)"
    by (auto simp: execute_function_call_dict_def Let_def split: prod.splits sum.splits py_exn.splits)
  then show ?thesis using execute_body_keeps_disabled[OF assms] by simp
qed

lemma step_keeps_disabled:
  assumes "\<not> enabled (git w)" and "\<not> runs_git_init op"
  shows "\<not> enabled (git (step e op w))"
proof (cases op)
  case (Tool_call tc)
  then show ?thesis using assms execute_keeps_disabled[of w tc e] by simp
next
  case Git_init_command
  then show ?thesis using assms by simp
next
  case (Git_branch_command bn)
  then show ?thesis using assms by (simp add: create_git_branch_cmd_def)
next
  case Git_status_command
  then show ?thesis using assms by (simp add: show_git_status_cmd_def)
next
  case (Commit_command m)
  then show ?thesis using assms by (simp add: user_commit_changes_def)
next
  case (Add_file_command p)
  then show ?thesis using assms
    by (simp add: add_file_command_def Let_def split: sum.splits)
qed

lemma run_session_keeps_disabled:
  "\<not> enabled (git w) \<Longrightarrow> \<forall>op \<in> set ops. \<not> runs_git_init op \<Longrightarrow>
   \<not> enabled (git (run_session e ops w))"
  unfolding run_session_def
  by (induction ops arbitrary: w) (simp_all add: step_keeps_disabled)

lemma absent_detected:
  assumes "\<forall>w' cmd. run e w' cmd = NotInstalled" and "enabled (git w)"
  shows "\<not> enabled (git (snd (get_git_status_porcelain e w)))"
    and "\<not> enabled (git (snd (llm_git_status e w)))"
    and "message \<noteq> [] \<Longrightarrow> \<not> enabled (git (snd (llm_git_commit e message w)))"
    and "py_strip bn \<noteq> [] \<Longrightarrow> \<not> enabled (git (snd (llm_git_create_branch e bn w)))"
    and "\<not> enabled (git (snd (user_commit_changes e message w)))"
    and "bn \<noteq> [] \<Longrightarrow> \<not> enabled (git (snd (create_git_branch_cmd e bn w)))"
    and "\<not> git_dir_exists e w \<Longrightarrow> \<not> enabled (git (snd (llm_git_init e w)))"
    and "\<not> git_dir_exists e w \<Longrightarrow> \<not> enabled (git (snd (initialize_git_repo_cmd e w)))"
  using assms
  by (simp_all add: get_git_status_porcelain_def llm_git_status_def llm_git_commit_def
      llm_git_create_branch_def user_commit_changes_def create_git_branch_cmd_def
      llm_git_init_def initialize_git_repo_cmd_def subprocess_run_def set_enabled_def Let_def)

text \<open>
  C8, as the code has it. If the git executable is absent and git is enabled, each
  operation that runs git under a handler for \<open>FileNotFoundError\<close> leaves
  \<open>enabled\<close> false: the status query, the status, commit and branch tools, the commit and
  branch commands, and both initialisations when there is no \<open>.git\<close> directory. Once
  \<open>enabled\<close> is false it stays false through every sequence of session operations that
  contains no git initialisation (the \<open>git_init\<close> tool or \<open>/git init\<close>).
\<close>

theorem git_disabled_until_init:
  "((\<forall>w' cmd. run e w' cmd = NotInstalled) \<and> enabled (git w) \<longrightarrow>
       \<not> enabled (git (snd (get_git_status_porcelain e w)))
     \<and> \<not> enabled (git (snd (llm_git_status e w)))
     \<and> (message \<noteq> [] \<longrightarrow> \<not> enabled (git (snd (llm_git_commit e message w))))
     \<and> (py_strip branch_name \<noteq> [] \<longrightarrow>
          \<not> enabled (git (snd (llm_git_create_branch e branch_name w))))
     \<and> \<not> enabled (git (snd (user_commit_changes e message w)))
     \<and> (branch_name \<noteq> [] \<longrightarrow> \<not> enabled (git (snd (create_git_branch_cmd e branch_name w))))
     \<and> (\<not> git_dir_exists e w \<longrightarrow>
          \<not> enabled (git (snd (llm_git_init e w)))
        \<and> \<not> enabled (git (snd (initialize_git_repo_cmd e w)))))
   \<and> (\<not> enabled (git w) \<and> (\<forall>op \<in> set ops. \<not> runs_git_init op) \<longrightarrow>
        \<not> enabled (git (run_session e ops w)))"
  using absent_detected[of e w] run_session_keeps_disabled[of w ops e] by blast

theorem git_disabled_until_init_witness:
  "\<not> enabled (git (snd (llm_git_status env_no_git (world_one_file ''/w/a.txt'' ''abc''))))
   \<and> \<not> enabled (git (snd (llm_git_commit env_no_git ''msg'' (world_one_file ''/w/a.txt'' ''abc''))))
   \<and> \<not> enabled (git (snd (llm_git_create_branch env_no_git ''dev''
                               (world_one_file ''/w/a.txt'' ''abc''))))
   \<and> \<not> enabled (git (snd (create_git_branch_cmd env_no_git ''dev''
                               (world_one_file ''/w/a.txt'' ''abc''))))
   \<and> \<not> enabled (git (snd (llm_git_init env_no_git (world_one_file ''/w/a.txt'' ''abc''))))
   \<and> \<not> enabled (git (run_session env_no_git
          [Tool_call git_status_call, Commit_command ''msg'', Git_status_command]
          (snd (llm_git_status env_no_git (world_one_file ''/w/a.txt'' ''abc'')))))"
proof -
  let ?w = "world_one_file ''/w/a.txt'' ''abc''"
  let ?w1 = "snd (llm_git_status env_no_git ?w)"
  let ?ops = "[Tool_call git_status_call, Commit_command ''msg'', Git_status_command]"
  have 1: "\<forall>w' cmd. run env_no_git w' cmd = NotInstalled"
    by (simp add: env_no_git_def)
  have 2: "enabled (git ?w)" by (simp add: world_one_file_def)
  have 3: "''msg'' \<noteq> []" "py_strip ''dev'' \<noteq> []" "''dev'' \<noteq> []"
    by (simp_all add: py_strip_def py_isspace_def)
  have 4: "\<not> git_dir_exists env_no_git ?w" by (simp add: env_no_git_def)
  have 5: "\<forall>op \<in> set ?ops. \<not> runs_git_init op"
    by (simp add: git_status_call_def)
  note a = git_disabled_until_init[of env_no_git ?w "''msg''" "''dev''" "[]"]
  from a 1 2 3 4 have d: "\<not> enabled (git ?w1)"
     "\<not> enabled (git (snd (llm_git_commit env_no_git ''msg'' ?w)))"
     "\<not> enabled (git (snd (llm_git_create_branch env_no_git ''dev'' ?w)))"
     "\<not> enabled (git (snd (create_git_branch_cmd env_no_git ''dev'' ?w)))"
     "\<not> enabled (git (snd (llm_git_init env_no_git ?w)))"
    by blast+
  note b = git_disabled_until_init[of env_no_git ?w1 "''msg''" "''dev''" ?ops]
  from b d(1) 5 have "\<not> enabled (git (run_session env_no_git ?ops ?w1))"
    by blast
  with d show ?thesis by blast
qed

text \<open>
  C8 as stated fails: with a \<open>.git\<close> directory present and no git executable, the
  status tool detects the absence and switches git off, and a later \<open>git_init\<close> tool
  call, which only looks for the directory, switches it on again.
\<close>

theorem git_init_reenables_counterexample:
  "enabled (git (world_one_file ''/w/a.txt'' ''abc''))
   \<and> \<not> enabled (git (step env_no_git_repo_present (Tool_call git_status_call)
                        (world_one_file ''/w/a.txt'' ''abc'')))
   \<and> enabled (git (step env_no_git_repo_present (Tool_call git_init_call)
                    (step env_no_git_repo_present (Tool_call git_status_call)
                       (world_one_file ''/w/a.txt'' ''abc''))))"
  by (simp add: world_one_file_def env_no_git_repo_present_def env_no_git_def
      git_status_call_def git_init_call_def execute_function_call_dict_def execute_body_def
      llm_git_status_def llm_git_init_def subprocess_run_def set_enabled_def)

end
